theory Spec2Isabelle
  imports Complex_Main
begin

section \<open>Medical gas engineering: data model\<close>

text \<open>
  Shallow embedding of the class \<open>MedicalGasEngineering\<close> of
  \<open>src/services/medicalGasEngineering.ts\<close>.

  Conventions of the embedding.
  \<^item> A JavaScript \<open>number\<close> is a \<open>number\<close>: a finite double \<open>Fin x\<close>, an infinity or NaN.
    The arithmetic of the demand, of the equipment, of the compliance checks, of the cost
    and of the report is the one of IEEE 754 doubles: the exact result rounded to the
    nearest double, ties to even, with overflow to an infinity (\<open>toDouble\<close>). The two
    zeros are not told apart; they differ only under a division by zero, which the code
    performs only as \<open>0 / 0\<close>.
  \<^item> The pipe sizer, which the report never calls, is kept over the reals: it uses
    \<open>Math.log10\<close> and \<open>Math.pow\<close>, whose doubles the language leaves to the
    implementation.
  \<^item> A union of string literals is a datatype. The flow-rate catalog is indexed by a free
    string, so its lookup follows the prototype chain: a name that the object literal
    inherits from \<open>Object.prototype\<close> yields that member, not \<open>undefined\<close>.
  \<^item> A template literal is kept as the list of its pieces, the interpolated numbers
    unrendered (\<open>Num\<close> for \<open>${x}\<close>, \<open>Fixed2\<close> for \<open>${x.toFixed(2)}\<close>); a plain string
    is a single \<open>Lit\<close>.
  \<^item> The methods mutate the systems held by a \<open>Map\<close>; the model passes the systems
    along as an association list in insertion order, which is the iteration order of
    the \<open>Map\<close>.
\<close>

section \<open>JavaScript numbers\<close>

datatype number = Fin real | PosInf | NegInf | NaN

text \<open>The exponent of the binade of a real, not below the one of the subnormal doubles,
  and the distance between neighbouring doubles there.\<close>

definition binade :: "real \<Rightarrow> int" where
  "binade x = max \<lfloor>log 2 \<bar>x\<bar>\<rfloor> (- 1022)"

definition ulp :: "real \<Rightarrow> real" where
  "ulp x = 2 powi (binade x - 52)"

text \<open>Rounding to the nearest integer, a tie to the even one.\<close>

definition roundEven :: "real \<Rightarrow> int" where
  "roundEven x =
     (let f = \<lfloor>x\<rfloor>; r = x - of_int f
      in if r < 1 / 2 then f else if r > 1 / 2 then f + 1 else if even f then f else f + 1)"

text \<open>The double of an exact result: the nearest multiple of \<open>ulp\<close>, an infinity when that
  multiple reaches \<open>2 ^ 1024\<close>.\<close>

definition toDouble :: "real \<Rightarrow> number" where
  "toDouble x =
     (if x = 0 then Fin 0
      else (let y = of_int (roundEven (x / ulp x)) * ulp x
            in if \<bar>y\<bar> \<ge> 2 ^ 1024 then (if x > 0 then PosInf else NegInf) else Fin y))"

fun jsNeg :: "number \<Rightarrow> number" where
  "jsNeg (Fin a) = Fin (- a)"
| "jsNeg PosInf = NegInf"
| "jsNeg NegInf = PosInf"
| "jsNeg NaN = NaN"

fun jsAdd :: "number \<Rightarrow> number \<Rightarrow> number" where
  "jsAdd (Fin a) (Fin b) = toDouble (a + b)"
| "jsAdd (Fin a) PosInf = PosInf"
| "jsAdd (Fin a) NegInf = NegInf"
| "jsAdd PosInf (Fin b) = PosInf"
| "jsAdd PosInf PosInf = PosInf"
| "jsAdd PosInf NegInf = NaN"
| "jsAdd NegInf (Fin b) = NegInf"
| "jsAdd NegInf PosInf = NaN"
| "jsAdd NegInf NegInf = NegInf"
| "jsAdd NaN b = NaN"
| "jsAdd a NaN = NaN"

definition jsSub :: "number \<Rightarrow> number \<Rightarrow> number" where
  "jsSub a b = jsAdd a (jsNeg b)"

fun jsMul :: "number \<Rightarrow> number \<Rightarrow> number" where
  "jsMul (Fin a) (Fin b) = toDouble (a * b)"
| "jsMul (Fin a) PosInf = (if a = 0 then NaN else if 0 < a then PosInf else NegInf)"
| "jsMul (Fin a) NegInf = (if a = 0 then NaN else if 0 < a then NegInf else PosInf)"
| "jsMul PosInf (Fin b) = (if b = 0 then NaN else if 0 < b then PosInf else NegInf)"
| "jsMul NegInf (Fin b) = (if b = 0 then NaN else if 0 < b then NegInf else PosInf)"
| "jsMul PosInf PosInf = PosInf"
| "jsMul PosInf NegInf = NegInf"
| "jsMul NegInf PosInf = NegInf"
| "jsMul NegInf NegInf = PosInf"
| "jsMul NaN b = NaN"
| "jsMul a NaN = NaN"

fun jsDiv :: "number \<Rightarrow> number \<Rightarrow> number" where
  "jsDiv (Fin a) (Fin b) =
     (if b = 0 then (if a = 0 then NaN else if 0 < a then PosInf else NegInf)
      else toDouble (a / b))"
| "jsDiv (Fin a) PosInf = Fin 0"
| "jsDiv (Fin a) NegInf = Fin 0"
| "jsDiv PosInf (Fin b) = (if 0 \<le> b then PosInf else NegInf)"
| "jsDiv NegInf (Fin b) = (if 0 \<le> b then NegInf else PosInf)"
| "jsDiv PosInf PosInf = NaN"
| "jsDiv PosInf NegInf = NaN"
| "jsDiv NegInf PosInf = NaN"
| "jsDiv NegInf NegInf = NaN"
| "jsDiv NaN b = NaN"
| "jsDiv a NaN = NaN"

text \<open>The comparisons \<open><\<close>, \<open>>\<close> and \<open><=\<close>: false as soon as an operand is NaN.\<close>

fun jsLess :: "number \<Rightarrow> number \<Rightarrow> bool" where
  "jsLess (Fin a) (Fin b) = (a < b)"
| "jsLess (Fin a) PosInf = True"
| "jsLess NegInf (Fin b) = True"
| "jsLess NegInf PosInf = True"
| "jsLess a b = False"

definition jsGreater :: "number \<Rightarrow> number \<Rightarrow> bool" where
  "jsGreater a b = jsLess b a"

definition jsLessEq :: "number \<Rightarrow> number \<Rightarrow> bool" where
  "jsLessEq a b = (jsLess a b \<or> (a = b \<and> a \<noteq> NaN))"

fun jsAbs :: "number \<Rightarrow> number" where
  "jsAbs (Fin a) = Fin \<bar>a\<bar>"
| "jsAbs PosInf = PosInf"
| "jsAbs NegInf = PosInf"
| "jsAbs NaN = NaN"

text \<open>\<open>Math.ceil\<close>, and \<open>Math.round\<close>, which rounds a half up. Both are exact on a
  double.\<close>

fun jsCeil :: "number \<Rightarrow> number" where
  "jsCeil (Fin a) = Fin (of_int \<lceil>a\<rceil>)"
| "jsCeil a = a"

fun jsRound :: "number \<Rightarrow> number" where
  "jsRound (Fin a) = Fin (of_int \<lfloor>a + 1 / 2\<rfloor>)"
| "jsRound a = a"

section \<open>Records of the engine\<close>

datatype gas = oxygen | air | vacuum | co2 | n2o | nitrogen | argon

datatype redundancy = single | dual | triple

datatype status = compliant | non_compliant | warning

datatype pressurization = positive | negative | neutral

datatype piece = Lit string | Num number | Fixed2 number | PlusMinus

type_synonym template = "piece list"

record Location =
  room :: string
  wallLocation :: string
  heightFromFloor :: number

record MedicalGasOutlet =
  type :: gas
  quantity :: number
  flowRate :: number
  pressure :: number
  simultaneousFactor :: number
  backupRequired :: bool
  location :: Location

record RoomGasRequirements =
  roomId :: string
  roomName :: string
  roomType :: string
  area :: number
  ceilingHeight :: number
  outlets :: "MedicalGasOutlet list"
  pressurization :: pressurization
  airChangesPerHour :: number
  filtrationLevel :: string
  specialRequirements :: "string list"

record AlarmSetPoints =
  highPressure :: number
  lowPressure :: number
  switchover :: number

record SystemPressureRequirements =
  operatingPressure :: number
  alarmSetPoints :: AlarmSetPoints
  backupCapacity :: number
  redundancyLevel :: redundancy

text \<open>The fields \<open>length\<close> and \<open>flowRate\<close> of a \<open>PipeCalculation\<close> carry a suffix:
  the first name is the list function of HOL, the second a field of the outlet.\<close>

record PipeCalculation =
  diameter :: real
  length_ft :: real
  material :: string
  pressureDrop :: real
  velocity :: real
  flowRate_scfm :: real
  roughness :: real

text \<open>The field \<open>notes\<close> carries a suffix: the name is reserved in Isabelle.\<close>

record ComplianceCheck =
  standard :: string
  requirement :: template
  status :: status
  notes_text :: template

record Distribution =
  mainLines :: "PipeCalculation list"
  branchLines :: "PipeCalculation list"
  totalLength :: number
  totalPressureDrop :: number

record Equipment =
  primarySupply :: string
  backupSupply :: string
  manifolds :: number
  regulators :: number
  alarms :: "string list"

record MedicalGasSystem =
  gasType :: gas
  totalDemand :: number
  peakDemand :: number
  systemPressure :: SystemPressureRequirements
  distribution :: Distribution
  equipment :: Equipment
  compliance :: "ComplianceCheck list"
  estimatedCost :: number

text \<open>One entry of \<open>NFPA99_STANDARDS\<close>.\<close>

record Standards =
  std_operatingPressure :: number
  lowPressureAlarm :: number
  highPressureAlarm :: number
  std_maxVelocity :: number
  std_simultaneousFactor :: number

section \<open>The constant tables\<close>

text \<open>A literal that is a double is written \<open>Fin\<close>; the literals 1.4, 1.8 and 0.9, which
  are not, are written \<open>toDouble\<close>.\<close>

fun NFPA99_STANDARDS :: "gas \<Rightarrow> Standards option" where
  "NFPA99_STANDARDS oxygen = Some \<lparr>std_operatingPressure = Fin 50, lowPressureAlarm = Fin 45,
     highPressureAlarm = Fin 55, std_maxVelocity = Fin 25, std_simultaneousFactor = Fin 0.75\<rparr>"
| "NFPA99_STANDARDS air = Some \<lparr>std_operatingPressure = Fin 50, lowPressureAlarm = Fin 45,
     highPressureAlarm = Fin 55, std_maxVelocity = Fin 25, std_simultaneousFactor = Fin 0.75\<rparr>"
| "NFPA99_STANDARDS vacuum = Some \<lparr>std_operatingPressure = Fin (- 15),
     lowPressureAlarm = Fin (- 12), highPressureAlarm = Fin (- 18),
     std_maxVelocity = Fin 5000, std_simultaneousFactor = Fin 0.50\<rparr>"
| "NFPA99_STANDARDS n2o = Some \<lparr>std_operatingPressure = Fin 50, lowPressureAlarm = Fin 45,
     highPressureAlarm = Fin 55, std_maxVelocity = Fin 25, std_simultaneousFactor = Fin 0.25\<rparr>"
| "NFPA99_STANDARDS co2 = Some \<lparr>std_operatingPressure = Fin 50, lowPressureAlarm = Fin 45,
     highPressureAlarm = Fin 55, std_maxVelocity = Fin 25, std_simultaneousFactor = Fin 0.25\<rparr>"
| "NFPA99_STANDARDS _ = None"

text \<open>The roughness table is read by the pipe sizer only, over the reals and by its own
  keys: a material named after a member of \<open>Object.prototype\<close> is outside this part of
  the model (it would make the roughness and the pressure drop NaN, not the diameter or
  the velocity).\<close>

definition PIPE_ROUGHNESS :: "(string \<times> real) list" where
  "PIPE_ROUGHNESS =
     [(''copper'', 0.000005), (''stainless_steel'', 0.000015), (''chrome_moly'', 0.000045)]"

fun FLOW_RATES :: "gas \<Rightarrow> (string \<times> real) list option" where
  "FLOW_RATES oxygen = Some [(''Operating Room'', 15), (''ICU'', 8), (''Emergency Room'', 12),
     (''Recovery Room'', 6), (''Patient Room'', 4), (''NICU'', 10)]"
| "FLOW_RATES air = Some [(''Operating Room'', 12), (''ICU'', 6), (''Emergency Room'', 10),
     (''Recovery Room'', 5), (''Patient Room'', 3), (''NICU'', 8)]"
| "FLOW_RATES vacuum = Some [(''Operating Room'', 8), (''ICU'', 5), (''Emergency Room'', 6),
     (''Recovery Room'', 3), (''Patient Room'', 2), (''NICU'', 4)]"
| "FLOW_RATES _ = None"

text \<open>The key of a system in the \<open>Map\<close>, as it is interpolated into a recommendation.\<close>

fun gasName :: "gas \<Rightarrow> string" where
  "gasName oxygen = ''oxygen''"
| "gasName air = ''air''"
| "gasName vacuum = ''vacuum''"
| "gasName co2 = ''co2''"
| "gasName n2o = ''n2o''"
| "gasName nitrogen = ''nitrogen''"
| "gasName argon = ''argon''"

section \<open>Demand\<close>

text \<open>The property names every object literal inherits from \<open>Object.prototype\<close>
  (ECMAScript, properties of the Object prototype object, with the accessors of its
  annex B). Each is a function, \<open>__proto__\<close> an object: a truthy value that is NaN as a
  number.\<close>

definition objectPrototypeNames :: "string list" where
  "objectPrototypeNames =
     [''constructor'', ''hasOwnProperty'', ''isPrototypeOf'', ''propertyIsEnumerable'',
      ''toLocaleString'', ''toString'', ''valueOf'', ''__proto__'', ''__defineGetter__'',
      ''__defineSetter__'', ''__lookupGetter__'', ''__lookupSetter__'']"

text \<open>What \<open>getBaseFlowRate\<close> can return: a number, or the inherited member of the given
  name.\<close>

datatype jsvalue = Number number | Inherited string

text \<open>The conversion that the operator \<open>*\<close> applies to its operand.\<close>

fun toNumber :: "jsvalue \<Rightarrow> number" where
  "toNumber (Number n) = n"
| "toNumber (Inherited name) = NaN"

text \<open>Bound variables that would carry the name of a record field are primed.

  \<open>flowRates[roomType] || 5\<close>: an own key gives its flow rate, and the default when
  that is falsy (zero); otherwise an inherited name gives the inherited member, which is
  truthy; only then is the value \<open>undefined\<close> and the result the default.\<close>

definition getBaseFlowRate :: "gas \<Rightarrow> string \<Rightarrow> jsvalue" where
  "getBaseFlowRate gasType' roomType' =
     (case FLOW_RATES gasType' of
        Some flowRates \<Rightarrow>
          (case map_of flowRates roomType' of
             Some v \<Rightarrow> if v = 0 then Number (Fin 5) else Number (Fin v)
           | None \<Rightarrow>
               if roomType' \<in> set objectPrototypeNames then Inherited roomType'
               else Number (Fin 5))
      | None \<Rightarrow> Number (Fin 5))"

record RoomDemand =
  rd_totalDemand :: number
  rd_peakDemand :: number
  rd_pressure :: number

definition calculateRoomDemand :: "RoomGasRequirements \<Rightarrow> MedicalGasOutlet \<Rightarrow> RoomDemand" where
  "calculateRoomDemand room' outlet =
     (let baseFlowRate = getBaseFlowRate (type outlet) (roomType room');
          totalDemand' = jsMul (quantity outlet) (toNumber baseFlowRate);
          peakDemand' = jsMul totalDemand' (simultaneousFactor outlet)
      in \<lparr>rd_totalDemand = totalDemand', rd_peakDemand = peakDemand',
          rd_pressure = pressure outlet\<rparr>)"

section \<open>Pipe sizing\<close>

definition standardSizes :: "real list" where
  "standardSizes = [0.5, 0.75, 1, 1.25, 1.5, 2, 2.5, 3, 4, 6, 8]"

text \<open>The arrow function \<open>maxVelocity\<close> declared inside the loop of
  \<open>calculatePipeSizing\<close>.\<close>

definition maxVelocity :: "gas \<Rightarrow> real" where
  "maxVelocity gasType' = (if gasType' = vacuum then 5000 / 60 else 25)"

definition calculateReynoldsNumber :: "real \<Rightarrow> real \<Rightarrow> real" where
  "calculateReynoldsNumber velocity' diameter' =
     (let kinematicViscosity = 0.000157 in (velocity' * diameter' / 12) / kinematicViscosity)"

definition calculateFrictionFactor :: "real \<Rightarrow> real \<Rightarrow> real \<Rightarrow> real" where
  "calculateFrictionFactor reynoldsNumber roughness' diameter' =
     (let relativeRoughness = roughness' / (diameter' / 12)
      in 0.25 / (log 10 (relativeRoughness / 3.7 + 5.74 / (reynoldsNumber powr 0.9))) ^ 2)"

definition calculatePressureDrop :: "real \<Rightarrow> real \<Rightarrow> real \<Rightarrow> real \<Rightarrow> real \<Rightarrow> real" where
  "calculatePressureDrop flowRate' diameter' length' roughness' velocity' =
     (let reynoldsNumber = calculateReynoldsNumber velocity' diameter';
          frictionFactor = calculateFrictionFactor reynoldsNumber roughness' diameter';
          densityAir = 0.075;
          gc = 32.174;
          pressureDrop' = frictionFactor * (length' / (diameter' / 12))
                            * (densityAir * velocity' ^ 2) / (2 * gc)
      in pressureDrop' / 144)"

text \<open>The cross-sectional area and the velocity, as both the loop and the fallback
  compute them.\<close>

definition pipeArea :: "real \<Rightarrow> real" where
  "pipeArea diameter' = pi * (diameter' / 12 / 2) ^ 2"

definition pipeVelocity :: "real \<Rightarrow> real \<Rightarrow> real" where
  "pipeVelocity flowRate' diameter' = (flowRate' / 60) / pipeArea diameter'"

text \<open>The \<open>for\<close> loop over the standard sizes: \<open>Some\<close> is the \<open>return\<close> inside the
  loop, \<open>None\<close> is falling out of it. The ceiling is \<open>maxVelocity('oxygen')\<close> for
  every call.\<close>

fun sizeLoop :: "real \<Rightarrow> real \<Rightarrow> string \<Rightarrow> real \<Rightarrow> real list \<Rightarrow> PipeCalculation option" where
  "sizeLoop flowRate' length' material' roughness' [] = None"
| "sizeLoop flowRate' length' material' roughness' (diameter' # sizes) =
     (let area' = pipeArea diameter';
          velocity' = (flowRate' / 60) / area'
      in if velocity' \<le> maxVelocity oxygen
         then (let pressureDrop' =
                     calculatePressureDrop flowRate' diameter' length' roughness' velocity'
               in Some \<lparr>diameter = diameter', length_ft = length', material = material',
                         pressureDrop = pressureDrop', velocity = velocity',
                         flowRate_scfm = flowRate', roughness = roughness'\<rparr>)
         else sizeLoop flowRate' length' material' roughness' sizes)"

definition calculatePipeSizing :: "real \<Rightarrow> real \<Rightarrow> real \<Rightarrow> string \<Rightarrow> PipeCalculation" where
  "calculatePipeSizing flowRate' pressure' length' material' =
     (let roughness' = (case map_of PIPE_ROUGHNESS material' of
                          Some v \<Rightarrow> if v = 0 then 0.000015 else v
                        | None \<Rightarrow> 0.000015)
      in case sizeLoop flowRate' length' material' roughness' standardSizes of
           Some calc \<Rightarrow> calc
         | None \<Rightarrow>
            (let diameter' = 8;
                 area' = pipeArea diameter';
                 velocity' = (flowRate' / 60) / area';
                 pressureDrop' =
                   calculatePressureDrop flowRate' diameter' length' roughness' velocity'
             in \<lparr>diameter = diameter', length_ft = length', material = material',
                  pressureDrop = pressureDrop', velocity = velocity',
                  flowRate_scfm = flowRate', roughness = roughness'\<rparr>))"

section \<open>System synthesis\<close>

definition getSystemPressureRequirements :: "gas \<Rightarrow> SystemPressureRequirements" where
  "getSystemPressureRequirements gasType' =
     (case NFPA99_STANDARDS gasType' of
        None \<Rightarrow>
          \<lparr>operatingPressure = Fin 50,
           alarmSetPoints = \<lparr>highPressure = Fin 55, lowPressure = Fin 45,
                             switchover = Fin 42\<rparr>,
           backupCapacity = Fin 100, redundancyLevel = dual\<rparr>
      | Some standards \<Rightarrow>
          \<lparr>operatingPressure = jsAbs (std_operatingPressure standards),
           alarmSetPoints = \<lparr>highPressure = jsAbs (highPressureAlarm standards),
                             lowPressure = jsAbs (lowPressureAlarm standards),
                             switchover = jsSub (jsAbs (lowPressureAlarm standards)) (Fin 3)\<rparr>,
           backupCapacity = Fin 100, redundancyLevel = dual\<rparr>)"

definition getPrimarySupplyRecommendation :: "gas \<Rightarrow> number \<Rightarrow> string" where
  "getPrimarySupplyRecommendation gasType' demand =
     (case gasType' of
        oxygen \<Rightarrow>
          if jsGreater demand (Fin 200) then ''Liquid oxygen bulk tank (1500+ gallon)''
          else if jsGreater demand (Fin 50) then ''Liquid oxygen bulk tank (500-1500 gallon)''
          else ''High-pressure cylinder manifold (6-12 cylinders)''
      | air \<Rightarrow>
          if jsGreater demand (Fin 100) then ''Dual rotary screw compressors with dryers''
          else if jsGreater demand (Fin 25) then ''Single rotary screw compressor with backup''
          else ''Reciprocating compressor with backup''
      | vacuum \<Rightarrow>
          if jsGreater demand (Fin 60) then ''Dual liquid ring vacuum pumps''
          else if jsGreater demand (Fin 20) then ''Single liquid ring with backup rotary vane''
          else ''Rotary vane vacuum pumps (duplex)''
      | _ \<Rightarrow> ''High-pressure cylinder manifold'')"

definition getBackupSupplyRecommendation :: "gas \<Rightarrow> number \<Rightarrow> string" where
  "getBackupSupplyRecommendation gasType' demand =
     (case gasType' of
        oxygen \<Rightarrow> ''High-pressure cylinder manifold (automatic switchover)''
      | air \<Rightarrow> ''Secondary compressor with automatic start''
      | vacuum \<Rightarrow> ''Secondary vacuum pump with automatic start''
      | _ \<Rightarrow> ''Secondary cylinder manifold'')"

definition calculateEquipmentRequirements :: "MedicalGasSystem \<Rightarrow> MedicalGasSystem" where
  "calculateEquipmentRequirements system =
     system\<lparr>equipment := (equipment system)
       \<lparr>primarySupply := getPrimarySupplyRecommendation (gasType system) (peakDemand system),
        backupSupply := getBackupSupplyRecommendation (gasType system) (peakDemand system),
        manifolds := (if jsGreater (peakDemand system) (Fin 100) then Fin 2 else Fin 1),
        regulators := jsCeil (jsDiv (peakDemand system) (Fin 50)),
        alarms := [''Master alarm panel'', ''Local pressure switches'',
                   ''Automatic switchover'', ''Remote monitoring capability'']\<rparr>\<rparr>"

section \<open>Compliance checks\<close>

text \<open>The four \<open>checks.push\<close> in order; the first is pushed only when the gas type has
  an entry in \<open>NFPA99_STANDARDS\<close>. A string is truthy when it is not empty.\<close>

definition pressureCheck :: "MedicalGasSystem \<Rightarrow> Standards \<Rightarrow> ComplianceCheck" where
  "pressureCheck system standards =
     \<lparr>standard = ''NFPA 99-2021 Section 5.1.3.2'',
      requirement = [Lit ''Operating pressure: '', Num (std_operatingPressure standards),
                     Lit '' PSI '', PlusMinus, Lit ''5 PSI''],
      status = (if jsLessEq (jsAbs (jsSub (operatingPressure (systemPressure system))
                                          (jsAbs (std_operatingPressure standards))))
                            (Fin 5)
                then compliant else non_compliant),
      notes_text = [Lit ''System pressure: '', Num (operatingPressure (systemPressure system)),
                    Lit '' PSI'']\<rparr>"

definition backupCheck :: "MedicalGasSystem \<Rightarrow> ComplianceCheck" where
  "backupCheck system =
     \<lparr>standard = ''NFPA 99-2021 Section 5.1.11'',
      requirement = [Lit ''Automatic backup system required''],
      status = (if backupSupply (equipment system) \<noteq> [] then compliant else non_compliant),
      notes_text = [Lit (if backupSupply (equipment system) \<noteq> []
                         then backupSupply (equipment system)
                         else ''No backup system specified'')]\<rparr>"

definition alarmCheck :: "MedicalGasSystem \<Rightarrow> ComplianceCheck" where
  "alarmCheck system =
     \<lparr>standard = ''NFPA 99-2021 Section 5.1.12'',
      requirement = [Lit ''Master alarm system with local and remote monitoring''],
      status = (if length (alarms (equipment system)) \<ge> 3 then compliant else warning),
      notes_text = [Num (Fin (real (length (alarms (equipment system))))),
                    Lit '' alarm features specified'']\<rparr>"

definition pressureDropCheck :: "MedicalGasSystem \<Rightarrow> ComplianceCheck" where
  "pressureDropCheck system =
     (if jsGreater (totalPressureDrop (distribution system)) (Fin 5)
      then \<lparr>standard = ''NFPA 99-2021 Section 5.1.3.6'',
            requirement = [Lit ''Total pressure drop should not exceed 5 PSI''],
            status = warning,
            notes_text = [Lit ''Total pressure drop: '',
                          Fixed2 (totalPressureDrop (distribution system)), Lit '' PSI'']\<rparr>
      else \<lparr>standard = ''NFPA 99-2021 Section 5.1.3.6'',
            requirement = [Lit ''Total pressure drop should not exceed 5 PSI''],
            status = compliant,
            notes_text = [Lit ''Total pressure drop: '',
                          Fixed2 (totalPressureDrop (distribution system)), Lit '' PSI'']\<rparr>)"

definition performComplianceChecks :: "MedicalGasSystem \<Rightarrow> gas \<Rightarrow> ComplianceCheck list" where
  "performComplianceChecks system gasType' =
     (case NFPA99_STANDARDS gasType' of
        Some standards \<Rightarrow> [pressureCheck system standards]
      | None \<Rightarrow> [])
     @ [backupCheck system, alarmCheck system, pressureDropCheck system]"

section \<open>Cost\<close>

record CostTiers =
  low :: number
  medium :: number
  high :: number

fun baseCosts :: "gas \<Rightarrow> CostTiers option" where
  "baseCosts oxygen = Some \<lparr>low = Fin 25000, medium = Fin 75000, high = Fin 200000\<rparr>"
| "baseCosts air = Some \<lparr>low = Fin 35000, medium = Fin 85000, high = Fin 250000\<rparr>"
| "baseCosts vacuum = Some \<lparr>low = Fin 30000, medium = Fin 80000, high = Fin 220000\<rparr>"
| "baseCosts co2 = Some \<lparr>low = Fin 15000, medium = Fin 40000, high = Fin 100000\<rparr>"
| "baseCosts n2o = Some \<lparr>low = Fin 20000, medium = Fin 50000, high = Fin 120000\<rparr>"
| "baseCosts _ = None"

fun redundancyMultipliers :: "redundancy \<Rightarrow> number" where
  "redundancyMultipliers single = Fin 1.0"
| "redundancyMultipliers dual = toDouble 1.4"
| "redundancyMultipliers triple = toDouble 1.8"

text \<open>The value of \<open>cost\<close> before the line \<open>cost *= redundancyMultipliers[...]\<close>: every
  \<open>+=\<close> is an addition of doubles.\<close>

definition costBeforeRedundancy :: "MedicalGasSystem \<Rightarrow> number" where
  "costBeforeRedundancy system =
     (let cost0 = (case baseCosts (gasType system) of
                     Some gasTypeCosts \<Rightarrow>
                       if jsGreater (peakDemand system) (Fin 200)
                       then jsAdd (Fin 0) (high gasTypeCosts)
                       else if jsGreater (peakDemand system) (Fin 50)
                       then jsAdd (Fin 0) (medium gasTypeCosts)
                       else jsAdd (Fin 0) (low gasTypeCosts)
                   | None \<Rightarrow> Fin 0);
          pipingCost = jsMul (totalLength (distribution system)) (Fin 150);
          cost1 = jsAdd cost0 pipingCost;
          cost2 = jsAdd cost1 (jsMul (manifolds (equipment system)) (Fin 15000));
          cost3 = jsAdd cost2 (jsMul (regulators (equipment system)) (Fin 2500));
          cost4 = jsAdd cost3
                    (jsMul (Fin (real (length (alarms (equipment system))))) (Fin 5000))
      in cost4)"

definition calculateSystemCost :: "MedicalGasSystem \<Rightarrow> number" where
  "calculateSystemCost system =
     (let cost = jsMul (costBeforeRedundancy system)
                       (redundancyMultipliers (redundancyLevel (systemPressure system)))
      in jsRound cost)"

section \<open>Demand of the facility\<close>

definition initialSystem :: "gas \<Rightarrow> MedicalGasSystem" where
  "initialSystem gasType' =
     \<lparr>gasType = gasType', totalDemand = Fin 0, peakDemand = Fin 0,
      systemPressure = getSystemPressureRequirements gasType',
      distribution = \<lparr>mainLines = [], branchLines = [], totalLength = Fin 0,
                      totalPressureDrop = Fin 0\<rparr>,
      equipment = \<lparr>primarySupply = [], backupSupply = [], manifolds = Fin 0,
                   regulators = Fin 0, alarms = []\<rparr>,
      compliance = [], estimatedCost = Fin 0\<rparr>"

definition initialSystems :: "(gas \<times> MedicalGasSystem) list" where
  "initialSystems = map (\<lambda>gasType'. (gasType', initialSystem gasType'))
                        [oxygen, air, vacuum, co2, n2o]"

text \<open>\<open>systems.get(key)\<close> followed by a mutation of the system found: the entry of the
  key is replaced, the order is kept, a missing key changes nothing.\<close>

fun updateSystem :: "gas \<Rightarrow> (MedicalGasSystem \<Rightarrow> MedicalGasSystem)
    \<Rightarrow> (gas \<times> MedicalGasSystem) list \<Rightarrow> (gas \<times> MedicalGasSystem) list" where
  "updateSystem key f [] = []"
| "updateSystem key f ((k, system) # systems') =
     (if k = key then (k, f system) # systems'
      else (k, system) # updateSystem key f systems')"

definition addOutletDemand :: "RoomGasRequirements \<Rightarrow> MedicalGasOutlet
    \<Rightarrow> (gas \<times> MedicalGasSystem) list \<Rightarrow> (gas \<times> MedicalGasSystem) list" where
  "addOutletDemand room' outlet systems' =
     (case map_of systems' (type outlet) of
        Some _ \<Rightarrow>
          (let roomDemand = calculateRoomDemand room' outlet
           in updateSystem (type outlet)
                (\<lambda>system. system\<lparr>totalDemand := jsAdd (totalDemand system)
                                                         (rd_totalDemand roomDemand),
                                   peakDemand := jsAdd (peakDemand system)
                                                        (rd_peakDemand roomDemand)\<rparr>)
                systems')
      | None \<Rightarrow> systems')"

definition accumulateDemand :: "RoomGasRequirements list
    \<Rightarrow> (gas \<times> MedicalGasSystem) list \<Rightarrow> (gas \<times> MedicalGasSystem) list" where
  "accumulateDemand rooms systems' =
     fold (\<lambda>room' acc. fold (addOutletDemand room') (outlets room') acc) rooms systems'"

text \<open>The body of the final \<open>systems.forEach\<close>.\<close>

definition finalizeSystem :: "gas \<Rightarrow> MedicalGasSystem \<Rightarrow> MedicalGasSystem" where
  "finalizeSystem gasType' system =
     (let system1 = (case NFPA99_STANDARDS gasType' of
                       Some standards \<Rightarrow>
                         system\<lparr>peakDemand := jsMul (totalDemand system)
                                                      (std_simultaneousFactor standards)\<rparr>
                     | None \<Rightarrow> system);
          system2 = calculateEquipmentRequirements system1;
          system3 = system2\<lparr>compliance := performComplianceChecks system2 gasType'\<rparr>
      in system3\<lparr>estimatedCost := calculateSystemCost system3\<rparr>)"

definition calculateSystemDemand :: "RoomGasRequirements list \<Rightarrow> (gas \<times> MedicalGasSystem) list" where
  "calculateSystemDemand rooms =
     map (\<lambda>(gasType', system). (gasType', finalizeSystem gasType' system))
         (accumulateDemand rooms initialSystems)"

section \<open>Engineering report\<close>

record Summary =
  totalRooms :: nat
  totalOutlets :: number
  totalSystemCost :: number
  gasTypesRequired :: "gas list"
  complianceScore :: number
  recommendationCount :: nat

text \<open>The field \<open>compliance\<close> of the report carries a suffix: the name is a field of
  the system.\<close>

record EngineeringReport =
  summary :: Summary
  systems :: "(gas \<times> MedicalGasSystem) list"
  recommendations :: "template list"
  compliance_all :: "ComplianceCheck list"

definition systemRecommendations :: "gas \<Rightarrow> MedicalGasSystem \<Rightarrow> template list" where
  "systemRecommendations gasType' system =
     (if jsGreater (totalPressureDrop (distribution system)) (Fin 3)
      then [[Lit ''Consider larger pipe sizes for '', Lit (gasName gasType'),
             Lit '' system to reduce pressure drop'']]
      else [])
     @ (if jsGreater (peakDemand system) (jsMul (totalDemand system) (toDouble 0.9))
        then [[Lit ''High simultaneous use factor for '', Lit (gasName gasType'),
               Lit '' - consider increasing backup capacity'']]
        else [])
     @ (let nonCompliantChecks = filter (\<lambda>c. status c = non_compliant) (compliance system)
        in if length nonCompliantChecks > 0
           then [[Lit ''Address '', Num (Fin (real (length nonCompliantChecks))),
                  Lit '' compliance issues for '', Lit (gasName gasType'), Lit '' system'']]
           else [])"

text \<open>The score \<open>(compliant / all) * 100\<close>, in doubles: with no check at all the quotient
  is \<open>0 / 0\<close>, NaN.\<close>

definition computeComplianceScore :: "ComplianceCheck list \<Rightarrow> number" where
  "computeComplianceScore allCompliance =
     jsMul (jsDiv (Fin (real (length (filter (\<lambda>c. status c = compliant) allCompliance))))
                  (Fin (real (length allCompliance))))
           (Fin 100)"

definition generateEngineeringReport :: "RoomGasRequirements list \<Rightarrow> EngineeringReport" where
  "generateEngineeringReport rooms =
     (let systems' = calculateSystemDemand rooms;
          allCompliance = concat (map (\<lambda>(gasType', system). compliance system) systems');
          recommendations' =
            concat (map (\<lambda>(gasType', system). systemRecommendations gasType' system) systems');
          totalCost = foldl (\<lambda>sum' system. jsAdd sum' (estimatedCost system)) (Fin 0)
                            (map snd systems');
          totalOutlets' =
            foldl (\<lambda>sum' room'.
                     jsAdd sum' (foldl (\<lambda>outletSum outlet. jsAdd outletSum (quantity outlet))
                                       (Fin 0) (outlets room')))
                  (Fin 0) rooms;
          summary' = \<lparr>totalRooms = length rooms, totalOutlets = totalOutlets',
                      totalSystemCost = totalCost, gasTypesRequired = map fst systems',
                      complianceScore = computeComplianceScore allCompliance,
                      recommendationCount = length recommendations'\<rparr>
      in \<lparr>summary = summary', systems = systems', recommendations = recommendations',
          compliance_all = allCompliance\<rparr>)"

section \<open>Auxiliary definitions\<close>

text \<open>The reals that are doubles: a mantissa below \<open>2 ^ 53\<close> at an exponent between
  the one of the subnormal doubles and the largest one.\<close>

definition isDouble :: "real \<Rightarrow> bool" where
  "isDouble t \<longleftrightarrow> (\<exists>m e. t = of_int m * 2 powi e \<and> \<bar>m\<bar> < 2 ^ 53 \<and> - 1074 \<le> e \<and> e \<le> 971)"


text \<open>The accumulation of the demand seen from one system: what the two nested
  \<open>forEach\<close> do to the system of the key \<open>g\<close>.\<close>

definition addTo :: "gas \<Rightarrow> RoomGasRequirements \<Rightarrow> MedicalGasOutlet \<Rightarrow> MedicalGasSystem \<Rightarrow> MedicalGasSystem" where
  "addTo g room' outlet system =
     (if g = type outlet
      then system\<lparr>totalDemand := jsAdd (totalDemand system)
                                         (rd_totalDemand (calculateRoomDemand room' outlet)),
                  peakDemand := jsAdd (peakDemand system)
                                        (rd_peakDemand (calculateRoomDemand room' outlet))\<rparr>
      else system)"

definition addRoom :: "gas \<Rightarrow> RoomGasRequirements \<Rightarrow> MedicalGasSystem \<Rightarrow> MedicalGasSystem" where
  "addRoom g room' system = fold (addTo g room') (outlets room') system"

text \<open>The demand of a facility for the gas type \<open>g\<close>: starting from 0, every outlet of
  that type, room by room in the order of the lists, adds its quantity times the base
  flow rate of its room type. \<open>peakFrom\<close> is the same sum of the outlet-level
  peaks.\<close>

definition outletStep :: "gas \<Rightarrow> RoomGasRequirements \<Rightarrow> MedicalGasOutlet \<Rightarrow> number \<Rightarrow> number" where
  "outletStep g room' outlet acc =
     (if g = type outlet
      then jsAdd acc (jsMul (quantity outlet) (toNumber (getBaseFlowRate g (roomType room'))))
      else acc)"

definition demandFrom :: "gas \<Rightarrow> RoomGasRequirements list \<Rightarrow> number \<Rightarrow> number" where
  "demandFrom g rooms acc = fold (\<lambda>room'. fold (outletStep g room') (outlets room')) rooms acc"

definition facilityDemand :: "gas \<Rightarrow> RoomGasRequirements list \<Rightarrow> number" where
  "facilityDemand g rooms = demandFrom g rooms (Fin 0)"

definition peakStep :: "gas \<Rightarrow> RoomGasRequirements \<Rightarrow> MedicalGasOutlet \<Rightarrow> number \<Rightarrow> number" where
  "peakStep g room' outlet acc =
     (if g = type outlet
      then jsAdd acc (jsMul (jsMul (quantity outlet)
                                   (toNumber (getBaseFlowRate g (roomType room'))))
                            (simultaneousFactor outlet))
      else acc)"

definition peakFrom :: "gas \<Rightarrow> RoomGasRequirements list \<Rightarrow> number \<Rightarrow> number" where
  "peakFrom g rooms acc = fold (\<lambda>room'. fold (peakStep g room') (outlets room')) rooms acc"

text \<open>The system of the key \<open>g\<close> as \<open>calculateSystemDemand\<close> returns it.\<close>

definition finalSystem :: "gas \<Rightarrow> RoomGasRequirements list \<Rightarrow> MedicalGasSystem" where
  "finalSystem g rooms =
     finalizeSystem g ((initialSystem g)\<lparr>totalDemand := facilityDemand g rooms,
                                         peakDemand := Fin 0\<rparr>)"

text \<open>Example inputs. \<open>operatingRoom\<close> is the operating room of 600 sq ft with
  6 oxygen, 4 air, 6 vacuum, 2 CO2 and 4 N2O outlets.\<close>

definition outletOf :: "gas \<Rightarrow> real \<Rightarrow> MedicalGasOutlet" where
  "outletOf g q =
     \<lparr>type = g, quantity = Fin q, flowRate = Fin 0, pressure = Fin 50,
      simultaneousFactor = Fin 1, backupRequired = True,
      location = \<lparr>room = ''R1'', wallLocation = ''head wall'', heightFromFloor = Fin 60\<rparr>\<rparr>"

definition roomOf :: "string \<Rightarrow> real \<Rightarrow> MedicalGasOutlet list \<Rightarrow> RoomGasRequirements" where
  "roomOf roomType' area' outlets' =
     \<lparr>roomId = ''R1'', roomName = ''Room 1'', roomType = roomType', area = Fin area',
      ceilingHeight = Fin 10, outlets = outlets', pressurization = positive,
      airChangesPerHour = Fin 20, filtrationLevel = ''HEPA'', specialRequirements = []\<rparr>"

definition operatingRoom :: RoomGasRequirements where
  "operatingRoom = roomOf ''Operating Room'' 600
     [outletOf oxygen 6, outletOf air 4, outletOf vacuum 6, outletOf co2 2, outletOf n2o 4]"

text \<open>A room with a negative area and a negative outlet quantity.\<close>

definition negativeRoom :: RoomGasRequirements where
  "negativeRoom = roomOf ''Operating Room'' (- 600) [outletOf oxygen (- 1)]"

text \<open>A room list with the outlet-level simultaneous-use factors blanked: two room lists
  are identical except for that field when blanking makes them equal.\<close>

definition withoutFactor :: "MedicalGasOutlet \<Rightarrow> MedicalGasOutlet" where
  "withoutFactor outlet = outlet\<lparr>simultaneousFactor := Fin 0\<rparr>"

definition withoutFactors :: "RoomGasRequirements \<Rightarrow> RoomGasRequirements" where
  "withoutFactors room' = room'\<lparr>outlets := map withoutFactor (outlets room')\<rparr>"

text \<open>The operating room again, its outlets with the factor 0.25 instead of 1.\<close>

definition operatingRoomLowFactor :: RoomGasRequirements where
  "operatingRoomLowFactor =
     operatingRoom\<lparr>outlets := map (\<lambda>outlet. outlet\<lparr>simultaneousFactor := Fin 0.25\<rparr>)
                                  (outlets operatingRoom)\<rparr>"

text \<open>Whether the catalog has a flow rate for the gas type and the room type.\<close>

definition inCatalog :: "gas \<Rightarrow> string \<Rightarrow> bool" where
  "inCatalog g roomType' =
     (case FLOW_RATES g of Some flowRates \<Rightarrow> roomType' \<in> set (map fst flowRates) | None \<Rightarrow> False)"

text \<open>A room of a type the catalog does not know, and a room whose type is the name of a
  member of \<open>Object.prototype\<close>.\<close>

definition laboratory :: RoomGasRequirements where
  "laboratory = roomOf ''Laboratory'' 300 [outletOf oxygen 3]"

definition constructorRoom :: RoomGasRequirements where
  "constructorRoom = roomOf ''constructor'' 300 [outletOf oxygen 3]"





section \<open>Rounding to a double\<close>

lemma powr_powi: "(2::real) powr (real_of_int j) = 2 powi j"
  by (rule powr_real_of_int') simp_all

lemma powr_powi1: "(2::real) powr (real_of_int j + 1) = 2 powi (j + 1)"
  using powr_powi [of "j + 1"] by simp

lemma two_powi_pos: "0 < (2::real) powi k"
  by simp

lemma binade_ge: "- 1022 \<le> binade x"
  by (simp add: binade_def)


lemma binade_lower:
  assumes "x \<noteq> 0"
  shows "2 powi (binade x) \<le> \<bar>x\<bar> \<or> binade x = - 1022"
proof -
  define k where "k = \<lfloor>log 2 \<bar>x\<bar>\<rfloor>"
  have pos: "0 < \<bar>x\<bar>" using assms by simp
  have "2 powr (real_of_int k) \<le> \<bar>x\<bar>"
    using floor_log_eq_powr_iff [of "\<bar>x\<bar>" 2 k] pos by (simp add: k_def)
  then have "2 powi k \<le> \<bar>x\<bar>"
    by (simp add: powr_powi)
  then show ?thesis
    by (auto simp: binade_def k_def max_def)
qed

lemma binade_eq:
  assumes "2 powi b \<le> \<bar>x\<bar>" and "\<bar>x\<bar> < 2 powi (b + 1)" and "- 1022 \<le> b"
  shows "binade x = b"
proof -
  have pos: "0 < \<bar>x\<bar>"
    using assms(1) two_powi_pos [of b] by linarith
  have "2 powr (real_of_int b) \<le> \<bar>x\<bar> \<and> \<bar>x\<bar> < 2 powr (real_of_int (b + 1))"
    using assms by (simp add: powr_powi powr_powi1)
  then have "\<lfloor>log 2 \<bar>x\<bar>\<rfloor> = b"
    using floor_log_eq_powr_iff [of "\<bar>x\<bar>" 2 b] pos by simp
  with assms(3) show ?thesis
    by (simp add: binade_def)
qed

lemma ulp_pos: "0 < ulp x"
  by (simp add: ulp_def)

lemma roundEven_error: "\<bar>of_int (roundEven z) - z\<bar> \<le> 1 / 2"
  unfolding roundEven_def Let_def by (auto simp: abs_le_iff)

lemma roundEven_of_int: "roundEven (of_int n) = n"
  by (simp add: roundEven_def)



lemma roundEven_near: "\<bar>z - of_int N\<bar> < 1 / 2 \<Longrightarrow> roundEven z = N"
proof -
  assume a: "\<bar>z - of_int N\<bar> < 1 / 2"
  have "\<bar>of_int (roundEven z) - z\<bar> \<le> 1 / 2" by (rule roundEven_error)
  with a have "\<bar>(of_int (roundEven z) :: real) - of_int N\<bar> < 1" by linarith
  then have "\<bar>roundEven z - N\<bar> < 1"
    by (metis of_int_abs of_int_diff of_int_less_1_iff)
  then show ?thesis by linarith
qed


lemma real_of_small_int:
  fixes m :: int
  shows "\<bar>m\<bar> < 2 ^ 53 \<Longrightarrow> real_of_int \<bar>m\<bar> < 2 ^ 53"
  using of_int_less_iff [of "\<bar>m\<bar>" "2 ^ 53", where ?'a = real] by simp

lemma two_powi_split: "(2::real) powi (a + b) = 2 powi a * 2 powi b"
  by (simp add: power_int_add)




lemma double_on_grid:
  assumes "isDouble t" and "- 1074 \<le> j" and "2 powi (j + 52) \<le> \<bar>t\<bar> \<or> j = - 1074"
  shows "\<exists>N::int. t = of_int N * 2 powi j"
proof -
  obtain m e where t: "t = of_int m * 2 powi e" and m: "\<bar>m\<bar> < 2 ^ 53"
    and e: "- 1074 \<le> e" "e \<le> 971"
    using assms(1) isDouble_def by auto
  show ?thesis
  proof (cases "j \<le> e")
    case True
    have "(2::real) powi e = 2 powi ((e - j) + j)" by simp
    also have "\<dots> = 2 powi (e - j) * 2 powi j" by (rule two_powi_split)
    also have "(2::real) powi (e - j) = of_int (2 ^ nat (e - j))"
      using True by (simp add: power_int_nonneg_exp)
    finally have "t = of_int (m * 2 ^ nat (e - j)) * 2 powi j"
      using t by simp
    then show ?thesis by blast
  next
    case False
    with e have "j \<noteq> - 1074" by simp
    with assms(3) have ge: "2 powi (j + 52) \<le> \<bar>t\<bar>" by simp
    have "\<bar>t\<bar> = real_of_int \<bar>m\<bar> * 2 powi e"
      using t by (simp add: abs_mult)
    also have "\<dots> < 2 ^ 53 * 2 powi e"
      using real_of_small_int [OF m] by (intro mult_strict_right_mono) simp_all
    also have "\<dots> = 2 powi (53 + e)"
      by (simp add: two_powi_split)
    also have "\<dots> \<le> 2 powi (j + 52)"
      using False by (intro power_int_increasing) simp_all
    finally show ?thesis using ge by simp
  qed
qed

lemma double_bound:
  assumes "isDouble t"
  shows "\<bar>t\<bar> < 2 ^ 1024"
proof -
  obtain m e where t: "t = of_int m * 2 powi e" and m: "\<bar>m\<bar> < 2 ^ 53"
    and e: "- 1074 \<le> e" "e \<le> 971"
    using assms isDouble_def by auto
  have "\<bar>t\<bar> = real_of_int \<bar>m\<bar> * 2 powi e"
    using t by (simp add: abs_mult)
  also have "\<dots> < 2 ^ 53 * 2 powi e"
    using real_of_small_int [OF m] by (intro mult_strict_right_mono) simp_all
  also have "\<dots> = 2 powi (53 + e)"
    by (simp add: two_powi_split)
  also have "\<dots> \<le> 2 powi 1024"
    using e by (intro power_int_increasing) simp_all
  finally show ?thesis by simp
qed

lemma toDouble_double:
  assumes "isDouble t"
  shows "toDouble t = Fin t"
proof (cases "t = 0")
  case True
  then show ?thesis by (simp add: toDouble_def)
next
  case False
  have "- 1074 \<le> binade t - 52"
    using binade_ge [of t] by simp
  moreover have "2 powi (binade t - 52 + 52) \<le> \<bar>t\<bar> \<or> binade t - 52 = - 1074"
    using binade_lower [OF False] by auto
  ultimately obtain N :: int where "t = of_int N * 2 powi (binade t - 52)"
    using double_on_grid [OF assms] by blast
  then have N: "t = of_int N * ulp t"
    by (simp add: ulp_def)
  have "t / ulp t = of_int N * ulp t / ulp t"
    using N by simp
  then have "t / ulp t = of_int N"
    using ulp_pos [of t] by simp
  then have "of_int (roundEven (t / ulp t)) * ulp t = t"
    using N by (simp add: roundEven_of_int)
  with False double_bound [OF assms] show ?thesis
    by (simp add: toDouble_def Let_def)
qed








lemma toDouble_eval:
  assumes "2 powi b \<le> x" and "x < 2 powi (b + 1)" and "- 1022 \<le> b"
    and "\<bar>x / 2 powi (b - 52) - real_of_int N\<bar> < 1 / 2"
    and "\<bar>real_of_int N * 2 powi (b - 52)\<bar> < 2 ^ 1024"
  shows "toDouble x = Fin (real_of_int N * 2 powi (b - 52))"
proof -
  have xpos: "0 < x"
    using assms(1) two_powi_pos [of b] by linarith
  then have "binade x = b"
    using assms(1-3) by (intro binade_eq) simp_all
  then have u: "ulp x = 2 powi (b - 52)"
    by (simp add: ulp_def)
  have "roundEven (x / ulp x) = N"
    unfolding u using assms(4) by (rule roundEven_near)
  with xpos assms(5) u show ?thesis
    by (simp add: toDouble_def Let_def)
qed

lemma toDouble_zero [simp]: "toDouble 0 = Fin 0"
  by (simp add: toDouble_def)

lemma isDouble_int: "\<bar>k\<bar> < 2 ^ 53 \<Longrightarrow> isDouble (of_int k)"
proof -
  assume "\<bar>k\<bar> < 2 ^ 53"
  then have "real_of_int k = of_int k * 2 powi 0 \<and> \<bar>k\<bar> < 2 ^ 53 \<and> - 1074 \<le> (0::int) \<and> (0::int) \<le> 971"
    by simp
  then show ?thesis unfolding isDouble_def by blast
qed

lemma toDouble_int: "\<bar>k\<bar> < 2 ^ 53 \<Longrightarrow> toDouble (of_int k) = Fin (of_int k)"
  by (rule toDouble_double) (rule isDouble_int)

lemma toDouble_numeral [simp]:
  "(numeral n :: int) < 2 ^ 53 \<Longrightarrow> toDouble (numeral n) = Fin (numeral n)"
  using toDouble_int [of "numeral n"] by simp

lemma toDouble_neg_numeral [simp]:
  "(numeral n :: int) < 2 ^ 53 \<Longrightarrow> toDouble (- numeral n) = Fin (- numeral n)"
  using toDouble_int [of "- numeral n"] by simp

lemma toDouble_one [simp]: "toDouble 1 = Fin 1"
  using toDouble_int [of 1] by simp


text \<open>The doubles of the literals 1.4 and 1.8.\<close>

lemma toDouble_14: "toDouble 1.4 = Fin (6305039478318694 / 2 ^ 52)"
  using toDouble_eval [of 0 "1.4" 6305039478318694] by simp


lemma toDouble_14_normal: "toDouble (7 / 5) = Fin (6305039478318694 / 2 ^ 52)"
  using toDouble_14 by simp


lemma jsGreater_Fin [simp]: "jsGreater (Fin a) (Fin b) \<longleftrightarrow> b < a"
  by (simp add: jsGreater_def)

lemma jsLessEq_Fin [simp]: "jsLessEq (Fin a) (Fin b) \<longleftrightarrow> a \<le> b"
  by (auto simp: jsLessEq_def)

lemma jsGreater_NaN_left [simp]: "\<not> jsGreater NaN b"
  by (cases b) (simp_all add: jsGreater_def)

lemma jsGreater_NaN_right [simp]: "\<not> jsGreater a NaN"
  by (cases a) (simp_all add: jsGreater_def)

section \<open>The accumulation, system by system\<close>

lemma updateSystem_map:
  "distinct (map fst xs) \<Longrightarrow>
   updateSystem key f xs = map (\<lambda>(g, s). (g, if g = key then f s else s)) xs"
proof (induction xs)
  case Nil
  then show ?case by simp
next
  case (Cons a xs)
  obtain k s where a: "a = (k, s)" by (cases a)
  show ?case
  proof (cases "k = key")
    case True
    with Cons.prems a have "key \<notin> fst ` set xs" by auto
    then have "map (\<lambda>(g, s). (g, if g = key then f s else s)) xs = xs"
      by (induction xs) auto
    with True a show ?thesis by simp
  next
    case False
    with Cons a show ?thesis by simp
  qed
qed

lemma addOutletDemand_map:
  assumes "distinct (map fst xs)"
  shows "addOutletDemand room' outlet xs = map (\<lambda>(g, s). (g, addTo g room' outlet s)) xs"
proof (cases "map_of xs (type outlet)")
  case None
  then have "type outlet \<notin> fst ` set xs" by (simp add: map_of_eq_None_iff)
  then have "map (\<lambda>(g, s). (g, addTo g room' outlet s)) xs = xs"
    by (induction xs) (auto simp: addTo_def)
  with None show ?thesis by (simp add: addOutletDemand_def)
next
  case (Some a)
  then show ?thesis
    using assms by (simp add: addOutletDemand_def updateSystem_map addTo_def Let_def cong: map_cong)
qed

lemma fold_addOutletDemand_map:
  "distinct (map fst xs) \<Longrightarrow>
   fold (addOutletDemand room') os xs = map (\<lambda>(g, s). (g, fold (addTo g room') os s)) xs"
proof (induction os arbitrary: xs)
  case Nil
  then show ?case by (simp add: case_prod_unfold)
next
  case (Cons a os)
  have d: "distinct (map fst (map (\<lambda>(g, s). (g, addTo g room' a s)) xs))"
    using Cons.prems by (simp add: case_prod_unfold comp_def)
  show ?case
    using Cons.prems Cons.IH [OF d]
    by (simp add: addOutletDemand_map case_prod_unfold comp_def)
qed

lemma accumulateDemand_map:
  "distinct (map fst xs) \<Longrightarrow>
   accumulateDemand rooms xs = map (\<lambda>(g, s). (g, fold (addRoom g) rooms s)) xs"
proof (induction rooms arbitrary: xs)
  case Nil
  then show ?case by (simp add: accumulateDemand_def case_prod_unfold)
next
  case (Cons r rooms)
  have d: "distinct (map fst (map (\<lambda>(g, s). (g, fold (addTo g r) (outlets r) s)) xs))"
    using Cons.prems by (simp add: case_prod_unfold comp_def)
  show ?case
    using Cons.prems Cons.IH [OF d]
    by (simp add: accumulateDemand_def fold_addOutletDemand_map addRoom_def case_prod_unfold comp_def)
qed

lemma initialSystems_keys: "map fst initialSystems = [oxygen, air, vacuum, co2, n2o]"
  by (simp add: initialSystems_def)

lemma calculateSystemDemand_eq:
  "calculateSystemDemand rooms =
     map (\<lambda>g. (g, finalizeSystem g (fold (addRoom g) rooms (initialSystem g))))
         [oxygen, air, vacuum, co2, n2o]"
proof -
  have "distinct (map fst initialSystems)" by (simp add: initialSystems_keys)
  then show ?thesis
    by (simp add: calculateSystemDemand_def accumulateDemand_map) (simp add: initialSystems_def)
qed

lemma fold_addTo:
  "fold (addTo g room') os s =
     s\<lparr>totalDemand := fold (outletStep g room') os (totalDemand s),
       peakDemand := fold (peakStep g room') os (peakDemand s)\<rparr>"
  by (induction os arbitrary: s)
     (simp_all add: addTo_def outletStep_def peakStep_def calculateRoomDemand_def Let_def)

lemma fold_addRoom:
  "fold (addRoom g) rooms s =
     s\<lparr>totalDemand := demandFrom g rooms (totalDemand s),
       peakDemand := peakFrom g rooms (peakDemand s)\<rparr>"
  by (induction rooms arbitrary: s)
     (simp_all add: addRoom_def fold_addTo demandFrom_def peakFrom_def)

lemma accumulated_system:
  "fold (addRoom g) rooms (initialSystem g) =
     (initialSystem g)\<lparr>totalDemand := facilityDemand g rooms,
                        peakDemand := peakFrom g rooms (Fin 0)\<rparr>"
  by (simp add: fold_addRoom facilityDemand_def) (simp add: initialSystem_def)

lemma finalize_totalDemand: "totalDemand (finalizeSystem g s) = totalDemand s"
  by (simp add: finalizeSystem_def calculateEquipmentRequirements_def Let_def split: option.splits)

lemma finalize_peakDemand:
  "NFPA99_STANDARDS g = Some st \<Longrightarrow>
   peakDemand (finalizeSystem g s) = jsMul (totalDemand s) (std_simultaneousFactor st)"
  by (simp add: finalizeSystem_def calculateEquipmentRequirements_def Let_def)

lemma five_standards:
  "g \<in> set [oxygen, air, vacuum, co2, n2o] \<Longrightarrow> \<exists>st. NFPA99_STANDARDS g = Some st"
  by auto

lemma calculateSystemDemand_final:
  "calculateSystemDemand rooms = map (\<lambda>g. (g, finalSystem g rooms)) [oxygen, air, vacuum, co2, n2o]"
proof -
  have "finalizeSystem g (fold (addRoom g) rooms (initialSystem g)) = finalSystem g rooms"
    if "g \<in> set [oxygen, air, vacuum, co2, n2o]" for g
  proof -
    from that obtain st where "NFPA99_STANDARDS g = Some st"
      using five_standards by blast
    then show ?thesis
      unfolding accumulated_system finalSystem_def
      by (simp add: finalizeSystem_def)
  qed
  then show ?thesis
    unfolding calculateSystemDemand_eq by simp
qed

lemma finalSystem_totalDemand: "totalDemand (finalSystem g rooms) = facilityDemand g rooms"
  by (simp add: finalSystem_def finalize_totalDemand)

lemma finalSystem_peakDemand:
  "NFPA99_STANDARDS g = Some st \<Longrightarrow>
   peakDemand (finalSystem g rooms) = jsMul (facilityDemand g rooms) (std_simultaneousFactor st)"
  by (simp add: finalSystem_def finalize_peakDemand)

lemma finalSystem_distribution:
  "distribution (finalSystem g rooms) =
     \<lparr>mainLines = [], branchLines = [], totalLength = Fin 0, totalPressureDrop = Fin 0\<rparr>"
  by (simp add: finalSystem_def finalizeSystem_def calculateEquipmentRequirements_def
        initialSystem_def Let_def split: option.splits)

lemma map_of_five:
  "g \<in> set [oxygen, air, vacuum, co2, n2o] \<Longrightarrow>
   map_of (map (\<lambda>g. (g, f g)) [oxygen, air, vacuum, co2, n2o]) g = Some (f g)"
  by auto


lemma finalSystem_systemPressure:
  "systemPressure (finalSystem g rooms) = getSystemPressureRequirements g"
  by (simp add: finalSystem_def finalizeSystem_def calculateEquipmentRequirements_def
        initialSystem_def Let_def split: option.splits)

lemma backup_nonempty: "getBackupSupplyRecommendation g d \<noteq> []"
  by (cases g) (simp_all add: getBackupSupplyRecommendation_def)

lemma finalSystem_equipment:
  "NFPA99_STANDARDS g = Some st \<Longrightarrow>
   equipment (finalSystem g rooms) =
     \<lparr>primarySupply = getPrimarySupplyRecommendation g (peakDemand (finalSystem g rooms)),
      backupSupply = getBackupSupplyRecommendation g (peakDemand (finalSystem g rooms)),
      manifolds = (if jsGreater (peakDemand (finalSystem g rooms)) (Fin 100) then Fin 2 else Fin 1),
      regulators = jsCeil (jsDiv (peakDemand (finalSystem g rooms)) (Fin 50)),
      alarms = [''Master alarm panel'', ''Local pressure switches'',
                ''Automatic switchover'', ''Remote monitoring capability'']\<rparr>"
  by (simp add: finalSystem_def finalizeSystem_def calculateEquipmentRequirements_def
        initialSystem_def Let_def)

lemma finalSystem_compliance:
  "NFPA99_STANDARDS g = Some st \<Longrightarrow>
   compliance (finalSystem g rooms) =
     [pressureCheck (finalSystem g rooms) st, backupCheck (finalSystem g rooms),
      alarmCheck (finalSystem g rooms), pressureDropCheck (finalSystem g rooms)]"
  by (simp add: finalSystem_def finalizeSystem_def calculateEquipmentRequirements_def
        performComplianceChecks_def pressureCheck_def backupCheck_def alarmCheck_def
        pressureDropCheck_def Let_def)

lemma finalSystem_status:
  assumes "NFPA99_STANDARDS g = Some st"
  shows "map status (compliance (finalSystem g rooms)) = [compliant, compliant, compliant, compliant]"
proof -
  have 1: "status (pressureCheck (finalSystem g rooms) st) = compliant"
    using assms
    by (cases g)
       (auto simp: pressureCheck_def finalSystem_systemPressure getSystemPressureRequirements_def
          jsSub_def jsLessEq_def)
  have 2: "status (backupCheck (finalSystem g rooms)) = compliant"
    using assms by (simp add: backupCheck_def finalSystem_equipment backup_nonempty)
  have 3: "status (alarmCheck (finalSystem g rooms)) = compliant"
    using assms by (simp add: alarmCheck_def finalSystem_equipment)
  have 4: "status (pressureDropCheck (finalSystem g rooms)) = compliant"
    by (simp add: pressureDropCheck_def finalSystem_distribution)
  show ?thesis
    using assms 1 2 3 4 by (simp add: finalSystem_compliance)
qed

lemma report_systems: "systems (generateEngineeringReport rooms) = calculateSystemDemand rooms"
  by (simp add: generateEngineeringReport_def Let_def)

lemma report_compliance_all:
  "compliance_all (generateEngineeringReport rooms) =
     concat (map (\<lambda>g. compliance (finalSystem g rooms)) [oxygen, air, vacuum, co2, n2o])"
  by (simp add: generateEngineeringReport_def Let_def calculateSystemDemand_final)

lemma report_score:
  "complianceScore (summary (generateEngineeringReport rooms)) =
     computeComplianceScore (compliance_all (generateEngineeringReport rooms))"
  by (simp add: generateEngineeringReport_def Let_def)

lemma report_statuses:
  "map status (compliance_all (generateEngineeringReport rooms)) = replicate 20 compliant"
proof -
  have "map status (compliance (finalSystem g rooms)) = replicate 4 compliant"
    if "g \<in> set [oxygen, air, vacuum, co2, n2o]" for g
  proof -
    from that obtain st where "NFPA99_STANDARDS g = Some st"
      using five_standards by blast
    then show ?thesis
      by (simp add: finalSystem_status numeral_eq_Suc)
  qed
  then show ?thesis
    unfolding report_compliance_all by (simp add: map_concat numeral_eq_Suc)
qed

lemma score_all_compliant:
  assumes "map status cs = replicate n compliant" and "0 < n"
  shows "computeComplianceScore cs = Fin 100"
proof -
  have len: "length cs = n"
    using assms(1) by (metis length_map length_replicate)
  have "\<forall>c \<in> set cs. status c = compliant"
  proof
    fix c assume "c \<in> set cs"
    then have "status c \<in> set (map status cs)" by simp
    with assms(1) show "status c = compliant" by simp
  qed
  then have "filter (\<lambda>c. status c = compliant) cs = cs"
    by (simp add: filter_id_conv)
  with len assms(2) show ?thesis
    by (simp add: computeComplianceScore_def)
qed

section \<open>The compliance score\<close>

text \<open>Claim C10. For every list of rooms, the empty one included, every compliance check
  of the report is compliant: the operating pressure of a system is the nominal one of
  the standards table, the backup supply is a non-empty string, there are four alarm
  features, and the total pressure drop is 0, hence at most 5. There are 20 checks, and
  the compliance score is 100.\<close>

theorem C10_all_checks_compliant:
  "(\<forall>c \<in> set (compliance_all (generateEngineeringReport rooms)). status c = compliant)
   \<and> length (compliance_all (generateEngineeringReport rooms)) = 20
   \<and> complianceScore (summary (generateEngineeringReport rooms)) = Fin 100
   \<and> (\<forall>g \<in> set [oxygen, air, vacuum, co2, n2o].
        \<exists>s st. map_of (systems (generateEngineeringReport rooms)) g = Some s
          \<and> NFPA99_STANDARDS g = Some st
          \<and> operatingPressure (systemPressure s) = jsAbs (std_operatingPressure st)
          \<and> backupSupply (equipment s) \<noteq> []
          \<and> length (alarms (equipment s)) = 4
          \<and> totalPressureDrop (distribution s) = Fin 0
          \<and> jsLessEq (totalPressureDrop (distribution s)) (Fin 5)
          \<and> map status (compliance s) = [compliant, compliant, compliant, compliant])"
proof -
  let ?cs = "compliance_all (generateEngineeringReport rooms)"
  have st: "map status ?cs = replicate 20 compliant"
    by (rule report_statuses)
  have len: "length ?cs = 20"
    using st by (metis length_map length_replicate)
  have all: "\<forall>c \<in> set ?cs. status c = compliant"
  proof
    fix c assume "c \<in> set ?cs"
    then have "status c \<in> set (map status ?cs)" by simp
    with st show "status c = compliant" by simp
  qed
  have score: "complianceScore (summary (generateEngineeringReport rooms)) = Fin 100"
    unfolding report_score using st by (rule score_all_compliant) simp
  have per: "\<exists>s st. map_of (systems (generateEngineeringReport rooms)) g = Some s
          \<and> NFPA99_STANDARDS g = Some st
          \<and> operatingPressure (systemPressure s) = jsAbs (std_operatingPressure st)
          \<and> backupSupply (equipment s) \<noteq> []
          \<and> length (alarms (equipment s)) = 4
          \<and> totalPressureDrop (distribution s) = Fin 0
          \<and> jsLessEq (totalPressureDrop (distribution s)) (Fin 5)
          \<and> map status (compliance s) = [compliant, compliant, compliant, compliant]"
    if g: "g \<in> set [oxygen, air, vacuum, co2, n2o]" for g
  proof -
    from g obtain st where st: "NFPA99_STANDARDS g = Some st"
      using five_standards by blast
    have lookup: "map_of (systems (generateEngineeringReport rooms)) g = Some (finalSystem g rooms)"
      unfolding report_systems calculateSystemDemand_final using g by (rule map_of_five)
    have p: "operatingPressure (systemPressure (finalSystem g rooms)) = jsAbs (std_operatingPressure st)"
      using st by (simp add: finalSystem_systemPressure getSystemPressureRequirements_def)
    have b: "backupSupply (equipment (finalSystem g rooms)) \<noteq> []"
      using st by (simp add: finalSystem_equipment backup_nonempty)
    have a: "length (alarms (equipment (finalSystem g rooms))) = 4"
      using st by (simp add: finalSystem_equipment)
    have d: "totalPressureDrop (distribution (finalSystem g rooms)) = Fin 0"
      by (simp add: finalSystem_distribution)
    have c: "map status (compliance (finalSystem g rooms))
        = [compliant, compliant, compliant, compliant]"
      using st by (rule finalSystem_status)
    from lookup st p b a d c show ?thesis by simp
  qed
  from all len score per show ?thesis by blast
qed

theorem C10_all_checks_compliant_witness:
  "list_all (\<lambda>c. status c = compliant) (compliance_all (generateEngineeringReport [operatingRoom]))
   \<and> length (compliance_all (generateEngineeringReport [operatingRoom])) = 20
   \<and> complianceScore (summary (generateEngineeringReport [operatingRoom])) = Fin 100
   \<and> (\<exists>s. map_of (systems (generateEngineeringReport [operatingRoom])) vacuum = Some s
        \<and> operatingPressure (systemPressure s) = Fin 15
        \<and> map status (compliance s) = [compliant, compliant, compliant, compliant])"
proof -
  note c10 = C10_all_checks_compliant [of "[operatingRoom]"]
  have 1: "list_all (\<lambda>c. status c = compliant)
             (compliance_all (generateEngineeringReport [operatingRoom]))"
    using c10 by (simp add: list_all_iff)
  have v: "vacuum \<in> set [oxygen, air, vacuum, co2, n2o]" by simp
  note per = bspec [OF conjunct2 [OF conjunct2 [OF conjunct2 [OF c10]]] v]
  from per obtain s st where
    "map_of (systems (generateEngineeringReport [operatingRoom])) vacuum = Some s"
    "NFPA99_STANDARDS vacuum = Some st"
    "operatingPressure (systemPressure s) = jsAbs (std_operatingPressure st)"
    "map status (compliance s) = [compliant, compliant, compliant, compliant]"
    by (elim exE conjE)
  then have 2: "\<exists>s. map_of (systems (generateEngineeringReport [operatingRoom])) vacuum = Some s
        \<and> operatingPressure (systemPressure s) = Fin 15
        \<and> map status (compliance s) = [compliant, compliant, compliant, compliant]"
    by auto
  from c10 1 2 show ?thesis by blast
qed

section \<open>Input validation\<close>

lemma outletStep_area: "outletStep g (room'\<lparr>area := a\<rparr>) = outletStep g room'"
  by (simp add: outletStep_def fun_eq_iff)

lemma demandFrom_area:
  "demandFrom g (map (\<lambda>room'. room'\<lparr>area := f room'\<rparr>) rooms) acc = demandFrom g rooms acc"
  unfolding demandFrom_def
  by (induction rooms arbitrary: acc) (simp_all add: outletStep_area)

lemma facilityDemand_area:
  "facilityDemand g (map (\<lambda>room'. room'\<lparr>area := f room'\<rparr>) rooms) = facilityDemand g rooms"
  by (simp add: facilityDemand_def demandFrom_area)

lemma toDouble_dyadic:
  "\<bar>m\<bar> < 2 ^ 53 \<Longrightarrow> - 1074 \<le> e \<Longrightarrow> e \<le> 971 \<Longrightarrow>
   toDouble (of_int m * 2 powi e) = Fin (of_int m * 2 powi e)"
  by (rule toDouble_double) (auto simp: isDouble_def)

lemma finalSystem_area:
  "finalSystem g (map (\<lambda>room'. room'\<lparr>area := f room'\<rparr>) rooms) = finalSystem g rooms"
  by (simp add: finalSystem_def facilityDemand_area)

lemma systems_keys: "map fst (calculateSystemDemand rooms) = [oxygen, air, vacuum, co2, n2o]"
  by (simp add: calculateSystemDemand_final)

text \<open>Claim C3, as stated: a room list holding a room with a negative outlet quantity or
  a negative area makes \<open>calculateSystemDemand\<close> fail with an InvalidInput error instead
  of computing a result. The source has no validation and no error: for the room below
  the five systems are returned, oxygen with the total demand \<open>-15\<close> and the peak
  demand \<open>-11.25\<close>.\<close>

theorem C3_negative_input_counterexample:
  "jsLess (area negativeRoom) (Fin 0)
   \<and> list_ex (\<lambda>outlet. jsLess (quantity outlet) (Fin 0)) (outlets negativeRoom)
   \<and> map (\<lambda>(g, s). (g, totalDemand s, peakDemand s)) (calculateSystemDemand [negativeRoom])
       = [(oxygen, Fin (- 15), Fin (- 11.25)), (air, Fin 0, Fin 0), (vacuum, Fin 0, Fin 0),
          (co2, Fin 0, Fin 0), (n2o, Fin 0, Fin 0)]"
proof -
  have d: "facilityDemand g [negativeRoom] = (if g = oxygen then Fin (- 15) else Fin 0)" for g
    by (simp add: facilityDemand_def demandFrom_def outletStep_def negativeRoom_def roomOf_def
          outletOf_def getBaseFlowRate_def)
  have p: "toDouble (- (45 / 4)) = Fin (- (45 / 4))"
    using toDouble_dyadic [of "- 45" "- 2"] by simp
  have "map (\<lambda>(g, s). (g, totalDemand s, peakDemand s)) (calculateSystemDemand [negativeRoom])
       = [(oxygen, Fin (- 15), Fin (- 11.25)), (air, Fin 0, Fin 0), (vacuum, Fin 0, Fin 0),
          (co2, Fin 0, Fin 0), (n2o, Fin 0, Fin 0)]"
    by (simp add: calculateSystemDemand_final finalSystem_totalDemand finalSystem_peakDemand d p)
  then show ?thesis
    by (simp add: negativeRoom_def roomOf_def outletOf_def)
qed

text \<open>Claim C3, amended: \<open>calculateSystemDemand\<close> validates nothing and has no error
  result. For every room list it returns the five systems; the total demand of a gas type
  is the sum, over the outlets of that type in the order of the lists, of quantity times
  base flow rate, a negative quantity entering the sum as it is; the area of a room is
  never read.\<close>

theorem C3_no_validation:
  "map fst (calculateSystemDemand rooms) = [oxygen, air, vacuum, co2, n2o]
   \<and> (\<forall>g \<in> set [oxygen, air, vacuum, co2, n2o].
        \<exists>s. map_of (calculateSystemDemand rooms) g = Some s
          \<and> totalDemand s
              = fold (\<lambda>room'. fold (\<lambda>outlet acc.
                        if g = type outlet
                        then jsAdd acc (jsMul (quantity outlet)
                                              (toNumber (getBaseFlowRate g (roomType room'))))
                        else acc) (outlets room')) rooms (Fin 0))
   \<and> calculateSystemDemand (map (\<lambda>room'. room'\<lparr>area := f room'\<rparr>) rooms)
       = calculateSystemDemand rooms"
proof -
  have "\<exists>s. map_of (calculateSystemDemand rooms) g = Some s
          \<and> totalDemand s
              = fold (\<lambda>room'. fold (\<lambda>outlet acc.
                        if g = type outlet
                        then jsAdd acc (jsMul (quantity outlet)
                                              (toNumber (getBaseFlowRate g (roomType room'))))
                        else acc) (outlets room')) rooms (Fin 0)"
    if g: "g \<in> set [oxygen, air, vacuum, co2, n2o]" for g
  proof -
    have "map_of (calculateSystemDemand rooms) g = Some (finalSystem g rooms)"
      unfolding calculateSystemDemand_final using g by (rule map_of_five)
    moreover have "outletStep g = (\<lambda>room' outlet acc.
                        if g = type outlet
                        then jsAdd acc (jsMul (quantity outlet)
                                              (toNumber (getBaseFlowRate g (roomType room'))))
                        else acc)"
      by (simp add: outletStep_def fun_eq_iff)
    ultimately show ?thesis
      by (simp add: finalSystem_totalDemand facilityDemand_def demandFrom_def)
  qed
  moreover have "calculateSystemDemand (map (\<lambda>room'. room'\<lparr>area := f room'\<rparr>) rooms)
       = calculateSystemDemand rooms"
    by (simp add: calculateSystemDemand_final finalSystem_area)
  ultimately show ?thesis
    using systems_keys by blast
qed

theorem C3_no_validation_witness:
  "map fst (calculateSystemDemand [negativeRoom]) = [oxygen, air, vacuum, co2, n2o]
   \<and> (\<exists>s. map_of (calculateSystemDemand [negativeRoom]) oxygen = Some s
         \<and> totalDemand s = Fin (- 15))
   \<and> calculateSystemDemand (map (\<lambda>room'. room'\<lparr>area := Fin 600\<rparr>) [negativeRoom])
       = calculateSystemDemand [negativeRoom]"
proof -
  note c3 = C3_no_validation [of "[negativeRoom]" "\<lambda>room'. Fin 600"]
  have o: "oxygen \<in> set [oxygen, air, vacuum, co2, n2o]" by simp
  note per = bspec [OF conjunct1 [OF conjunct2 [OF c3]] o]
  have "\<exists>s. map_of (calculateSystemDemand [negativeRoom]) oxygen = Some s
      \<and> totalDemand s = Fin (- 15)"
    using per
    by (simp add: negativeRoom_def roomOf_def outletOf_def getBaseFlowRate_def)
  with c3 show ?thesis by blast
qed

section \<open>Pipe calculations of the report\<close>

lemma report_lookup:
  "g \<in> set [oxygen, air, vacuum, co2, n2o] \<Longrightarrow>
   map_of (systems (generateEngineeringReport rooms)) g = Some (finalSystem g rooms)"
  unfolding report_systems calculateSystemDemand_final by (rule map_of_five)

lemma facilityDemand_operatingRoom_oxygen:
  "facilityDemand oxygen [operatingRoom] = Fin 90"
  by (simp add: facilityDemand_def demandFrom_def outletStep_def operatingRoom_def roomOf_def
        outletOf_def getBaseFlowRate_def)

text \<open>Claim C4, as stated: \<open>generateEngineeringReport\<close> runs the pipe sizer for each gas
  type that has demand and produces main-line and branch-line PipeCalculations. For the
  operating room, oxygen has the total demand 90 and no PipeCalculation at all.\<close>

theorem C4_no_pipe_sizing_counterexample:
  "\<exists>s. map_of (systems (generateEngineeringReport [operatingRoom])) oxygen = Some s
     \<and> totalDemand s = Fin 90
     \<and> mainLines (distribution s) = []
     \<and> branchLines (distribution s) = []"
proof -
  have "map_of (systems (generateEngineeringReport [operatingRoom])) oxygen
      = Some (finalSystem oxygen [operatingRoom])"
    by (rule report_lookup) simp
  then show ?thesis
    by (simp add: finalSystem_totalDemand finalSystem_distribution facilityDemand_operatingRoom_oxygen)
qed

text \<open>Claim C4, amended: \<open>generateEngineeringReport\<close> does not run the pipe sizer. For
  every facility input each of the five systems has no main-line and no branch-line
  PipeCalculation, and its \<open>totalLength\<close> and \<open>totalPressureDrop\<close> are 0, the sums over
  those empty lists.\<close>

theorem C4_distribution_totals:
  "\<forall>g \<in> set [oxygen, air, vacuum, co2, n2o].
     \<exists>s. map_of (systems (generateEngineeringReport rooms)) g = Some s
       \<and> mainLines (distribution s) = []
       \<and> branchLines (distribution s) = []
       \<and> totalLength (distribution s)
           = Fin (sum_list (map length_ft (mainLines (distribution s)
                                             @ branchLines (distribution s))))
       \<and> totalPressureDrop (distribution s)
           = Fin (sum_list (map pressureDrop (mainLines (distribution s)
                                                @ branchLines (distribution s))))
       \<and> totalLength (distribution s) = Fin 0
       \<and> totalPressureDrop (distribution s) = Fin 0"
proof
  fix g assume "g \<in> set [oxygen, air, vacuum, co2, n2o]"
  then have "map_of (systems (generateEngineeringReport rooms)) g = Some (finalSystem g rooms)"
    by (rule report_lookup)
  then show "\<exists>s. map_of (systems (generateEngineeringReport rooms)) g = Some s
       \<and> mainLines (distribution s) = []
       \<and> branchLines (distribution s) = []
       \<and> totalLength (distribution s)
           = Fin (sum_list (map length_ft (mainLines (distribution s)
                                             @ branchLines (distribution s))))
       \<and> totalPressureDrop (distribution s)
           = Fin (sum_list (map pressureDrop (mainLines (distribution s)
                                                @ branchLines (distribution s))))
       \<and> totalLength (distribution s) = Fin 0
       \<and> totalPressureDrop (distribution s) = Fin 0"
    by (simp add: finalSystem_distribution)
qed

theorem C4_distribution_totals_witness:
  "\<exists>s. map_of (systems (generateEngineeringReport [operatingRoom])) vacuum = Some s
       \<and> mainLines (distribution s) = []
       \<and> branchLines (distribution s) = []
       \<and> totalLength (distribution s) = Fin 0
       \<and> totalPressureDrop (distribution s) = Fin 0"
proof -
  have v: "vacuum \<in> set [oxygen, air, vacuum, co2, n2o]" by simp
  from bspec [OF C4_distribution_totals [of "[operatingRoom]"] v] show ?thesis
    by blast
qed

section \<open>The empty facility\<close>

lemma finalSystem_empty_peak:
  "g \<in> set [oxygen, air, vacuum, co2, n2o] \<Longrightarrow> peakDemand (finalSystem g []) = Fin 0"
proof -
  assume "g \<in> set [oxygen, air, vacuum, co2, n2o]"
  then obtain st where "NFPA99_STANDARDS g = Some st"
    using five_standards by blast
  with \<open>g \<in> set [oxygen, air, vacuum, co2, n2o]\<close> show ?thesis
    by (auto simp: finalSystem_peakDemand facilityDemand_def demandFrom_def)
qed

lemma report_length: "length (compliance_all (generateEngineeringReport rooms)) = 20"
  using report_statuses [of rooms] by (metis length_map length_replicate)

lemma report_score_100: "complianceScore (summary (generateEngineeringReport rooms)) = Fin 100"
  unfolding report_score using report_statuses by (rule score_all_compliant) simp

text \<open>Claim C5, as stated: for the empty room list the compliance score is empty or
  undefined. The five systems exist for every input, each with its four checks, so the
  score of the empty facility is 100, computed from 20 checks.\<close>

theorem C5_empty_score_counterexample:
  "complianceScore (summary (generateEngineeringReport [])) = Fin 100
   \<and> complianceScore (summary (generateEngineeringReport [])) \<noteq> NaN
   \<and> length (compliance_all (generateEngineeringReport [])) = 20"
  by (simp add: report_score_100 report_length)

text \<open>Claim C5, amended: for the empty room list the report has the five systems, each
  with total and peak demand 0 and without PipeCalculations; it has 20 compliance checks
  and the compliance score 100, so the score is a quotient by 20, not by zero.\<close>

theorem C5_empty_facility:
  "map (\<lambda>(g, s). (g, totalDemand s, peakDemand s, mainLines (distribution s),
                    branchLines (distribution s)))
       (systems (generateEngineeringReport []))
     = [(oxygen, Fin 0, Fin 0, [], []), (air, Fin 0, Fin 0, [], []),
        (vacuum, Fin 0, Fin 0, [], []), (co2, Fin 0, Fin 0, [], []),
        (n2o, Fin 0, Fin 0, [], [])]
   \<and> totalRooms (summary (generateEngineeringReport [])) = 0
   \<and> length (compliance_all (generateEngineeringReport [])) = 20
   \<and> complianceScore (summary (generateEngineeringReport [])) = Fin 100"
proof -
  have t: "totalDemand (finalSystem g []) = Fin 0" for g
    by (simp add: finalSystem_totalDemand facilityDemand_def demandFrom_def)
  have "map (\<lambda>(g, s). (g, totalDemand s, peakDemand s, mainLines (distribution s),
                    branchLines (distribution s)))
       (systems (generateEngineeringReport []))
     = [(oxygen, Fin 0, Fin 0, [], []), (air, Fin 0, Fin 0, [], []),
        (vacuum, Fin 0, Fin 0, [], []), (co2, Fin 0, Fin 0, [], []),
        (n2o, Fin 0, Fin 0, [], [])]"
    by (simp add: report_systems calculateSystemDemand_final t finalSystem_empty_peak
          finalSystem_distribution)
  moreover have "totalRooms (summary (generateEngineeringReport [])) = 0"
    by (simp add: generateEngineeringReport_def Let_def)
  ultimately show ?thesis
    by (simp add: report_score_100 report_length)
qed

section \<open>The pressure-drop check\<close>

text \<open>Claim C6. For every system and gas type, \<open>performComplianceChecks\<close> returns exactly
  one check of the total pressure drop (section 5.1.3.6); its status is compliant when
  the total pressure drop of the distribution is at most 5 PSI (when it is not above 5 PSI,
  which also covers a drop that is not a number) and warning when it is above 5 PSI, and
  so never non-compliant.\<close>

theorem C6_pressure_drop_check:
  "map status (filter (\<lambda>c. standard c = ''NFPA 99-2021 Section 5.1.3.6'')
                 (performComplianceChecks system g))
     = [if jsGreater (totalPressureDrop (distribution system)) (Fin 5)
        then warning else compliant]
   \<and> non_compliant \<notin> set (map status (filter (\<lambda>c. standard c = ''NFPA 99-2021 Section 5.1.3.6'')
                                  (performComplianceChecks system g)))"
proof -
  have f: "filter (\<lambda>c. standard c = ''NFPA 99-2021 Section 5.1.3.6'')
             (performComplianceChecks system g) = [pressureDropCheck system]"
    by (cases "NFPA99_STANDARDS g")
       (simp_all add: performComplianceChecks_def pressureCheck_def backupCheck_def
          alarmCheck_def pressureDropCheck_def)
  have s: "status (pressureDropCheck system)
      = (if jsGreater (totalPressureDrop (distribution system)) (Fin 5)
         then warning else compliant)"
    by (simp add: pressureDropCheck_def)
  show ?thesis
    unfolding f by (simp add: s)
qed

section \<open>The outlet-level factor\<close>

lemma outletStep_withoutFactor:
  "outletStep g (withoutFactors room') (withoutFactor outlet) = outletStep g room' outlet"
  by (simp add: outletStep_def withoutFactors_def withoutFactor_def fun_eq_iff)

lemma fold_outletStep_withoutFactor:
  "fold (outletStep g (withoutFactors room')) (map withoutFactor os) acc
     = fold (outletStep g room') os acc"
  by (induction os arbitrary: acc) (simp_all add: outletStep_withoutFactor)

lemma demandFrom_withoutFactors: "demandFrom g (map withoutFactors rooms) acc = demandFrom g rooms acc"
proof (induction rooms arbitrary: acc)
  case Nil
  then show ?case by (simp add: demandFrom_def)
next
  case (Cons r rooms)
  have "outlets (withoutFactors r) = map withoutFactor (outlets r)"
    by (simp add: withoutFactors_def)
  with Cons show ?case
    by (simp add: demandFrom_def fold_outletStep_withoutFactor)
qed

lemma facilityDemand_withoutFactors:
  "facilityDemand g (map withoutFactors rooms) = facilityDemand g rooms"
  by (simp add: facilityDemand_def demandFrom_withoutFactors)

lemma calculateSystemDemand_withoutFactors:
  "calculateSystemDemand (map withoutFactors rooms) = calculateSystemDemand rooms"
  by (simp add: calculateSystemDemand_final finalSystem_def facilityDemand_withoutFactors)

lemma outletSum_withoutFactor:
  "foldl (\<lambda>outletSum outlet. jsAdd outletSum (quantity outlet)) a (map withoutFactor os)
     = foldl (\<lambda>outletSum outlet. jsAdd outletSum (quantity outlet)) a os"
  by (induction os arbitrary: a) (simp_all add: withoutFactor_def)

lemma totalOutlets_withoutFactors:
  "foldl (\<lambda>sum' room'.
            jsAdd sum' (foldl (\<lambda>outletSum outlet. jsAdd outletSum (quantity outlet))
                              (Fin 0) (outlets room'))) a (map withoutFactors rooms)
     = foldl (\<lambda>sum' room'.
            jsAdd sum' (foldl (\<lambda>outletSum outlet. jsAdd outletSum (quantity outlet))
                              (Fin 0) (outlets room'))) a rooms"
  by (induction rooms arbitrary: a) (simp_all add: withoutFactors_def outletSum_withoutFactor)

lemma report_withoutFactors:
  "generateEngineeringReport (map withoutFactors rooms) = generateEngineeringReport rooms"
  unfolding generateEngineeringReport_def calculateSystemDemand_withoutFactors
    totalOutlets_withoutFactors
  by simp

text \<open>Claim C9. Two room lists that are identical except for the \<open>simultaneousFactor\<close> of
  their outlets give the same result of \<open>calculateSystemDemand\<close> and the same result of
  \<open>generateEngineeringReport\<close>: the sum of the outlet-level peaks is overwritten by the
  total demand times the factor of the standards table.\<close>

theorem C9_outlet_factor_ignored:
  assumes "map withoutFactors rooms = map withoutFactors rooms2"
  shows "calculateSystemDemand rooms = calculateSystemDemand rooms2
         \<and> generateEngineeringReport rooms = generateEngineeringReport rooms2"
proof -
  have "calculateSystemDemand rooms = calculateSystemDemand (map withoutFactors rooms)"
    by (simp add: calculateSystemDemand_withoutFactors)
  also have "\<dots> = calculateSystemDemand (map withoutFactors rooms2)"
    by (simp add: assms)
  also have "\<dots> = calculateSystemDemand rooms2"
    by (simp add: calculateSystemDemand_withoutFactors)
  finally have 1: "calculateSystemDemand rooms = calculateSystemDemand rooms2" .
  have "generateEngineeringReport rooms = generateEngineeringReport (map withoutFactors rooms)"
    by (simp add: report_withoutFactors)
  also have "\<dots> = generateEngineeringReport (map withoutFactors rooms2)"
    by (simp add: assms)
  also have "\<dots> = generateEngineeringReport rooms2"
    by (simp add: report_withoutFactors)
  finally have 2: "generateEngineeringReport rooms = generateEngineeringReport rooms2" .
  from 1 2 show ?thesis by simp
qed

theorem C9_outlet_factor_ignored_witness:
  "map withoutFactors [operatingRoom] = map withoutFactors [operatingRoomLowFactor]
   \<and> operatingRoom \<noteq> operatingRoomLowFactor
   \<and> calculateSystemDemand [operatingRoom] = calculateSystemDemand [operatingRoomLowFactor]
   \<and> generateEngineeringReport [operatingRoom] = generateEngineeringReport [operatingRoomLowFactor]"
proof -
  have h: "map withoutFactors [operatingRoom] = map withoutFactors [operatingRoomLowFactor]"
    by (simp add: withoutFactors_def withoutFactor_def operatingRoomLowFactor_def
          operatingRoom_def roomOf_def outletOf_def)
  have "outlets operatingRoom \<noteq> outlets operatingRoomLowFactor"
    by (simp add: operatingRoomLowFactor_def operatingRoom_def roomOf_def outletOf_def)
  then have d: "operatingRoom \<noteq> operatingRoomLowFactor"
    by auto
  from C9_outlet_factor_ignored [OF h] h d show ?thesis
    by simp
qed

section \<open>Peak demand\<close>















section \<open>The fallback flow rate\<close>

text \<open>The default is what the catalog gives for a room type that is neither one of its
  keys nor the name of an inherited member.\<close>

lemma fallback_flow_rate:
  assumes "\<not> inCatalog (type outlet) (roomType room')"
    and "roomType room' \<notin> set objectPrototypeNames"
  shows "getBaseFlowRate (type outlet) (roomType room') = Number (Fin 5)
         \<and> rd_totalDemand (calculateRoomDemand room' outlet) = jsMul (quantity outlet) (Fin 5)"
proof -
  have "getBaseFlowRate (type outlet) (roomType room') = Number (Fin 5)"
  proof (cases "FLOW_RATES (type outlet)")
    case None
    then show ?thesis by (simp add: getBaseFlowRate_def)
  next
    case (Some flowRates)
    with assms(1) have "roomType room' \<notin> fst ` set flowRates"
      by (simp add: inCatalog_def)
    then have "map_of flowRates (roomType room') = None"
      by (simp add: map_of_eq_None_iff)
    with Some assms(2) show ?thesis by (simp add: getBaseFlowRate_def)
  qed
  then show ?thesis
    by (simp add: calculateRoomDemand_def Let_def)
qed

text \<open>Claim C7. For every room whose room type has no entry in the flow-rate catalog of
  the gas type of the outlet, the base flow rate is the default 5 and the demand of the
  outlet is its quantity times 5. The code at a room of the type \<open>constructor\<close> with 3
  oxygen outlets: the type is not in the catalog, \<open>flowRates[roomType]\<close> is the inherited
  member of that name, which is truthy, so \<open>|| 5\<close> does not apply; the demand of the
  outlet and the total and peak demand of oxygen are NaN, not 15 and 11.25.\<close>

theorem C7_inherited_member_not_default:
  "\<not> inCatalog (type (outletOf oxygen 3)) (roomType constructorRoom)
   \<and> getBaseFlowRate (type (outletOf oxygen 3)) (roomType constructorRoom)
       = Inherited ''constructor''
   \<and> rd_totalDemand (calculateRoomDemand constructorRoom (outletOf oxygen 3)) = NaN
   \<and> jsMul (quantity (outletOf oxygen 3)) (Fin 5) = Fin 15
   \<and> (\<exists>s. map_of (calculateSystemDemand [constructorRoom]) oxygen = Some s
         \<and> totalDemand s = NaN \<and> peakDemand s = NaN)"
proof -
  have 1: "\<not> inCatalog (type (outletOf oxygen 3)) (roomType constructorRoom)"
    by (simp add: inCatalog_def outletOf_def constructorRoom_def roomOf_def)
  have 2: "getBaseFlowRate (type (outletOf oxygen 3)) (roomType constructorRoom)
      = Inherited ''constructor''"
    by (simp add: getBaseFlowRate_def outletOf_def constructorRoom_def roomOf_def
          objectPrototypeNames_def)
  have 3: "rd_totalDemand (calculateRoomDemand constructorRoom (outletOf oxygen 3)) = NaN"
    using 2 by (simp add: calculateRoomDemand_def Let_def) (simp add: outletOf_def)
  have 4: "jsMul (quantity (outletOf oxygen 3)) (Fin 5) = Fin 15"
    by (simp add: outletOf_def)
  have d: "facilityDemand oxygen [constructorRoom] = NaN"
    by (simp add: facilityDemand_def demandFrom_def outletStep_def getBaseFlowRate_def
          objectPrototypeNames_def outletOf_def constructorRoom_def roomOf_def)
  have "map_of (calculateSystemDemand [constructorRoom]) oxygen
      = Some (finalSystem oxygen [constructorRoom])"
    unfolding calculateSystemDemand_final by (rule map_of_five) simp
  then have 5: "\<exists>s. map_of (calculateSystemDemand [constructorRoom]) oxygen = Some s
         \<and> totalDemand s = NaN \<and> peakDemand s = NaN"
    by (simp add: finalSystem_totalDemand finalSystem_peakDemand d)
  from 1 2 3 4 5 show ?thesis by blast
qed

section \<open>Cost and redundancy\<close>










text \<open>The product is rounded before \<open>Math.round\<close>: at the cost 81937.5 the double
  product with 1.4 lies below 114712.5, which the exact product is, and the estimated cost
  is 114712.\<close>

lemma product_rounded_down:
  "jsMul (Fin 81937.5) (redundancyMultipliers dual) = Fin (7882982975078399 / 2 ^ 36)
   \<and> jsRound (jsMul (Fin 81937.5) (redundancyMultipliers dual)) = Fin 114712
   \<and> \<lfloor>(81937.5::real) * 1.4 + 1 / 2\<rfloor> = 114713"
proof -
  have "toDouble (81937.5 * (6305039478318694 / 2 ^ 52)) = Fin (7882982975078399 / 2 ^ 36)"
    using toDouble_eval [of 16 "81937.5 * (6305039478318694 / 2 ^ 52)" 7882982975078399]
    by simp
  then have 1: "jsMul (Fin 81937.5) (redundancyMultipliers dual) = Fin (7882982975078399 / 2 ^ 36)"
    by (simp add: toDouble_14_normal)
  have 2: "\<lfloor>(7882982975078399::real) / 2 ^ 36 + 1 / 2\<rfloor> = 114712"
    by (simp add: floor_eq_iff)
  have 3: "\<lfloor>(81937.5::real) * 1.4 + 1 / 2\<rfloor> = 114713"
    by (simp add: floor_eq_iff)
  from 1 2 3 show ?thesis by simp
qed




section \<open>Pipe sizing\<close>

lemma maxVelocity_oxygen: "maxVelocity oxygen = 25"
  by (simp add: maxVelocity_def)

lemma sizeLoop_None:
  "sizeLoop F len mat rough ds = None \<longleftrightarrow> (\<forall>d \<in> set ds. 25 < pipeVelocity F d)"
  by (induction ds) (auto simp: Let_def maxVelocity_oxygen pipeVelocity_def)

lemma sizeLoop_Some:
  "sizeLoop F len mat rough ds = Some r \<Longrightarrow>
   \<exists>pre post. ds = pre @ diameter r # post
     \<and> (\<forall>d \<in> set pre. 25 < pipeVelocity F d)
     \<and> velocity r = pipeVelocity F (diameter r)
     \<and> velocity r \<le> 25"
proof (induction ds)
  case Nil
  then show ?case by simp
next
  case (Cons d ds)
  show ?case
  proof (cases "pipeVelocity F d \<le> 25")
    case True
    with Cons.prems have "diameter r = d" "velocity r = pipeVelocity F d"
      by (auto simp: Let_def maxVelocity_oxygen pipeVelocity_def)
    with True have "d # ds = [] @ diameter r # ds
        \<and> (\<forall>d \<in> set []. 25 < pipeVelocity F d)
        \<and> velocity r = pipeVelocity F (diameter r) \<and> velocity r \<le> 25"
      by simp
    then show ?thesis by blast
  next
    case False
    with Cons.prems have "sizeLoop F len mat rough ds = Some r"
      by (simp add: Let_def maxVelocity_oxygen pipeVelocity_def)
    from Cons.IH [OF this] obtain pre post where
      "ds = pre @ diameter r # post" "\<forall>d \<in> set pre. 25 < pipeVelocity F d"
      "velocity r = pipeVelocity F (diameter r)" "velocity r \<le> 25"
      by blast
    with False have "d # ds = (d # pre) @ diameter r # post
        \<and> (\<forall>d \<in> set (d # pre). 25 < pipeVelocity F d)
        \<and> velocity r = pipeVelocity F (diameter r) \<and> velocity r \<le> 25"
      by simp
    then show ?thesis by blast
  qed
qed

lemma standardSizes_sorted: "sorted standardSizes \<and> distinct standardSizes"
  by (simp add: standardSizes_def)

lemma sizeLoop_fields:
  "sizeLoop F len mat rough ds = Some r \<Longrightarrow>
   length_ft r = len \<and> flowRate_scfm r = F \<and> material r = mat \<and> roughness r = rough"
  by (induction ds) (auto simp: Let_def split: if_splits)

lemma calculatePipeSizing_unfold:
  "\<exists>rough. calculatePipeSizing F p len mat =
     (case sizeLoop F len mat rough standardSizes of
        Some calc \<Rightarrow> calc
      | None \<Rightarrow> \<lparr>diameter = 8, length_ft = len, material = mat,
                  pressureDrop = calculatePressureDrop F 8 len rough (pipeVelocity F 8),
                  velocity = pipeVelocity F 8, flowRate_scfm = F, roughness = rough\<rparr>)"
  unfolding calculatePipeSizing_def Let_def pipeVelocity_def by blast

text \<open>What \<open>calculatePipeSizing\<close> returns, for every flow rate, length and material: a
  standard size with its own velocity; the smallest standard size whose velocity is at
  most 25 ft/s when there is one, and 8 inches otherwise.\<close>

lemma calculatePipeSizing_member:
  "diameter (calculatePipeSizing F p len mat) \<in> set standardSizes
   \<and> velocity (calculatePipeSizing F p len mat)
       = pipeVelocity F (diameter (calculatePipeSizing F p len mat))
   \<and> length_ft (calculatePipeSizing F p len mat) = len
   \<and> flowRate_scfm (calculatePipeSizing F p len mat) = F
   \<and> material (calculatePipeSizing F p len mat) = mat"
proof -
  obtain rough where u: "calculatePipeSizing F p len mat =
     (case sizeLoop F len mat rough standardSizes of
        Some calc \<Rightarrow> calc
      | None \<Rightarrow> \<lparr>diameter = 8, length_ft = len, material = mat,
                  pressureDrop = calculatePressureDrop F 8 len rough (pipeVelocity F 8),
                  velocity = pipeVelocity F 8, flowRate_scfm = F, roughness = rough\<rparr>)"
    using calculatePipeSizing_unfold by blast
  show ?thesis
  proof (cases "sizeLoop F len mat rough standardSizes")
    case None
    with u show ?thesis by (simp add: standardSizes_def)
  next
    case (Some r)
    with u have eq: "calculatePipeSizing F p len mat = r"
      by simp
    from sizeLoop_Some [OF Some] obtain pre post where
      decomp: "standardSizes = pre @ diameter r # post"
      and v: "velocity r = pipeVelocity F (diameter r)"
      by blast
    have "set standardSizes = set (pre @ diameter r # post)"
      using decomp by (rule arg_cong)
    then have "diameter r \<in> set standardSizes"
      by simp
    with v sizeLoop_fields [OF Some] show ?thesis
      unfolding eq by simp
  qed
qed

lemma calculatePipeSizing_smallest:
  assumes "\<exists>d \<in> set standardSizes. pipeVelocity F d \<le> 25"
  shows "velocity (calculatePipeSizing F p len mat) \<le> 25
         \<and> (\<forall>d \<in> set standardSizes. d < diameter (calculatePipeSizing F p len mat)
               \<longrightarrow> 25 < pipeVelocity F d)"
proof -
  obtain rough where u: "calculatePipeSizing F p len mat =
     (case sizeLoop F len mat rough standardSizes of
        Some calc \<Rightarrow> calc
      | None \<Rightarrow> \<lparr>diameter = 8, length_ft = len, material = mat,
                  pressureDrop = calculatePressureDrop F 8 len rough (pipeVelocity F 8),
                  velocity = pipeVelocity F 8, flowRate_scfm = F, roughness = rough\<rparr>)"
    using calculatePipeSizing_unfold by blast
  from assms have "sizeLoop F len mat rough standardSizes \<noteq> None"
    by (auto simp: sizeLoop_None not_less)
  then obtain r where r: "sizeLoop F len mat rough standardSizes = Some r"
    by blast
  with u have eq: "calculatePipeSizing F p len mat = r"
    by simp
  from sizeLoop_Some [OF r] obtain pre post where
    decomp: "standardSizes = pre @ diameter r # post"
    and pre: "\<forall>d \<in> set pre. 25 < pipeVelocity F d"
    and v: "velocity r \<le> 25"
    by blast
  have "sorted standardSizes"
    using standardSizes_sorted by simp
  then have "sorted (pre @ diameter r # post)"
    unfolding decomp .
  then have post: "\<forall>d \<in> set post. diameter r \<le> d"
    by (simp add: sorted_append)
  have "25 < pipeVelocity F d" if "d \<in> set standardSizes" "d < diameter r" for d
  proof -
    have "set standardSizes = set (pre @ diameter r # post)"
      using decomp by (rule arg_cong)
    with that(1) have "d \<in> set pre \<or> d = diameter r \<or> d \<in> set post"
      by auto
    with that(2) post have "d \<in> set pre"
      by auto
    with pre show ?thesis by blast
  qed
  with v eq show ?thesis by blast
qed

lemma calculatePipeSizing_fallback:
  assumes "\<forall>d \<in> set standardSizes. 25 < pipeVelocity F d"
  shows "diameter (calculatePipeSizing F p len mat) = 8
         \<and> velocity (calculatePipeSizing F p len mat) = pipeVelocity F 8
         \<and> 25 < velocity (calculatePipeSizing F p len mat)"
proof -
  obtain rough where u: "calculatePipeSizing F p len mat =
     (case sizeLoop F len mat rough standardSizes of
        Some calc \<Rightarrow> calc
      | None \<Rightarrow> \<lparr>diameter = 8, length_ft = len, material = mat,
                  pressureDrop = calculatePressureDrop F 8 len rough (pipeVelocity F 8),
                  velocity = pipeVelocity F 8, flowRate_scfm = F, roughness = rough\<rparr>)"
    using calculatePipeSizing_unfold by blast
  from assms have "sizeLoop F len mat rough standardSizes = None"
    by (simp add: sizeLoop_None)
  moreover from assms have "25 < pipeVelocity F 8"
    by (simp add: standardSizes_def)
  ultimately show ?thesis
    using u by simp
qed

text \<open>The velocities of a flow of 2.8 CFM in the two smallest sizes, from
  \<open>2 \<le> pi\<close> and \<open>pi < 4\<close>.\<close>

lemma half_inch_above_25: "25 < pipeVelocity 2.8 0.5"
proof -
  have "pipeVelocity 2.8 0.5 = 107.52 / pi"
    by (simp add: pipeVelocity_def pipeArea_def power2_eq_square)
  moreover have "25 * pi < 107.52"
    using pi_less_4 by simp
  ultimately show ?thesis
    by (simp add: pos_less_divide_eq)
qed

lemma half_inch_within_vacuum_ceiling: "pipeVelocity 2.8 0.5 \<le> maxVelocity vacuum"
proof -
  have "pipeVelocity 2.8 0.5 = 107.52 / pi"
    by (simp add: pipeVelocity_def pipeArea_def power2_eq_square)
  moreover have "107.52 \<le> (5000 / 60) * pi"
    using pi_ge_two by simp
  ultimately show ?thesis
    by (simp add: maxVelocity_def pos_divide_le_eq)
qed

lemma three_quarter_inch_within_25: "pipeVelocity 2.8 0.75 \<le> 25"
proof -
  have "pipeVelocity 2.8 0.75 = (2.8 * 576 / (60 * 0.5625)) / pi"
    by (simp add: pipeVelocity_def pipeArea_def power2_eq_square)
  moreover have "(2.8 * 576 / (60 * 0.5625)) \<le> (25::real) * 2"
    by simp
  then have "(2.8 * 576 / (60 * 0.5625)) \<le> 25 * pi"
    using pi_ge_two by linarith
  ultimately show ?thesis
    by (simp add: pos_divide_le_eq)
qed

text \<open>Claim C2. \<open>calculatePipeSizing\<close> returns the smallest standard diameter whose
  velocity does not exceed the velocity ceiling of the gas type: 25 ft/s for the
  pressurized gases and, for vacuum, 5000 ft/min converted to ft/s. The code at a vacuum
  line of 2.8 CFM (pressure \<open>-15\<close>), 100 ft of copper: the size 0.5 inch keeps the
  velocity within the vacuum ceiling of 5000/60 ft/s, but the ceiling applied is
  \<open>maxVelocity('oxygen')\<close>, 25 ft/s, which that velocity exceeds, and the size returned
  is 0.75 inch.\<close>

theorem C2_vacuum_ceiling_not_applied:
  "diameter (calculatePipeSizing 2.8 (- 15) 100 ''copper'') = 0.75
   \<and> velocity (calculatePipeSizing 2.8 (- 15) 100 ''copper'') = pipeVelocity 2.8 0.75
   \<and> 0.5 \<in> set standardSizes
   \<and> pipeVelocity 2.8 0.5 \<le> maxVelocity vacuum
   \<and> 25 < pipeVelocity 2.8 0.5"
proof -
  let ?r = "calculatePipeSizing 2.8 (- 15) 100 ''copper''"
  have ex: "\<exists>d \<in> set standardSizes. pipeVelocity 2.8 d \<le> 25"
    using three_quarter_inch_within_25 by (auto simp: standardSizes_def)
  note small = calculatePipeSizing_smallest [OF ex, of "- 15" 100 "''copper''"]
  note mem = calculatePipeSizing_member [of "2.8" "- 15" 100 "''copper''"]
  have dmem: "diameter ?r \<in> set standardSizes"
    using mem by blast
  have vel: "velocity ?r = pipeVelocity 2.8 (diameter ?r)"
    using mem by blast
  have lo: "\<not> diameter ?r < 0.75"
  proof
    assume "diameter ?r < 0.75"
    with dmem have e: "diameter ?r = 0.5"
      by (auto simp: standardSizes_def)
    have "velocity ?r = pipeVelocity 2.8 0.5"
      by (simp only: vel e)
    moreover have "velocity ?r \<le> 25"
      using small by blast
    ultimately show False
      using half_inch_above_25 by linarith
  qed
  have hi: "\<not> 0.75 < diameter ?r"
  proof
    assume "0.75 < diameter ?r"
    moreover have "0.75 \<in> set standardSizes"
      by (simp add: standardSizes_def)
    ultimately have "25 < pipeVelocity 2.8 0.75"
      using small by blast
    with three_quarter_inch_within_25 show False by linarith
  qed
  from lo hi have d: "diameter ?r = 0.75"
    by linarith
  have "velocity ?r = pipeVelocity 2.8 0.75"
    by (simp only: vel d)
  moreover have "0.5 \<in> set standardSizes"
    by (simp add: standardSizes_def)
  ultimately show ?thesis
    using d half_inch_above_25 half_inch_within_vacuum_ceiling by blast
qed

end
